theory Spec2Isabelle
  imports Complex_Main "HOL-Library.List_Lexorder" "HOL-Library.Char_ord"
begin

section \<open>Darwin Core data-frame validation: the data model\<close>

text \<open>
  The validator of \<^verbatim>\<open>dwc_validator/validate.py\<close> reads a pandas data frame and builds
  the report objects of \<^verbatim>\<open>dwc_validator/model.py\<close>. A cell of a frame is absent,
  a number, or a string. An absent cell is pandas' missing-value marker NaN (\<open>Null\<close>)
  or, in a column of dtype object, Python's \<^verbatim>\<open>None\<close> (\<open>PyNone\<close>); pandas counts both as
  missing. A number is modelled by its exact value; infinities and the rounding of the
  float parser are outside the model.
\<close>

datatype cell = Null | PyNone | Num real | Str string

text \<open>\<^verbatim>\<open>pd.isna\<close> on a cell.\<close>

fun isnull :: "cell \<Rightarrow> bool" where
  "isnull Null = True"
| "isnull PyNone = True"
| "isnull (Num r) = False"
| "isnull (Str s) = False"

text \<open>
  A frame has a row count of its own (\<^verbatim>\<open>len(dataframe)\<close>, \<^verbatim>\<open>dataframe.shape[0]\<close>)
  and a sequence of named columns. In a well-formed frame every column has one cell
  per row and no two columns share a name.
\<close>

record dataframe =
  nrows :: nat
  frame_data :: "(string \<times> cell list) list"

definition columns :: "dataframe \<Rightarrow> string list" where
  "columns df = map fst (frame_data df)"

definition column :: "dataframe \<Rightarrow> string \<Rightarrow> cell list option" where
  "column df f = map_of (frame_data df) f"

definition wf_dataframe :: "dataframe \<Rightarrow> bool" where
  "wf_dataframe df =
     (distinct (columns df) \<and> list_all (\<lambda>c. length (snd c) = nrows df) (frame_data df))"

text \<open>
  The exceptions of Python that the validator can end in. \<open>RequestError\<close> stands for
  whatever a call of \<^verbatim>\<open>requests\<close> or the decoding of its answer raises.
\<close>

datatype error =
    KeyError string
  | TypeError_missing "string list"
  | TypeError_unexpected string
  | TypeError_int
  | AttributeError string
  | UnboundLocalError string
  | RequestError
  | SystemExit

subsection \<open>The pandas operations the validator calls\<close>

text \<open>\<^verbatim>\<open>Series.count()\<close>, \<^verbatim>\<open>Series.isna().sum()\<close>, \<^verbatim>\<open>Series.notnull().all()\<close>,
  \<^verbatim>\<open>Series.dropna()\<close>.\<close>

definition count_nonnull :: "cell list \<Rightarrow> int" where
  "count_nonnull s = int (length (filter (\<lambda>c. \<not> isnull c) s))"

definition isna_sum :: "cell list \<Rightarrow> int" where
  "isna_sum s = int (length (filter isnull s))"

definition notnull_all :: "cell list \<Rightarrow> bool" where
  "notnull_all s = list_all (\<lambda>c. \<not> isnull c) s"

definition dropna :: "cell list \<Rightarrow> cell list" where
  "dropna s = filter (\<lambda>c. \<not> isnull c) s"

text \<open>
  \<^verbatim>\<open>pd.to_numeric(series, errors='coerce')\<close> maps every cell to a number or to NaN
  (\<open>None\<close>). How pandas reads a string as a number is not code of this repository:
  the string parser is the parameter \<open>parse\<close>.
\<close>

fun to_numeric :: "(string \<Rightarrow> real option) \<Rightarrow> cell \<Rightarrow> real option" where
  "to_numeric parse Null = None"
| "to_numeric parse PyNone = None"
| "to_numeric parse (Num r) = Some r"
| "to_numeric parse (Str s) = parse s"

text \<open>\<^verbatim>\<open>Series.between(lo, hi, inclusive='both')\<close> is false on NaN.\<close>

fun between :: "real \<Rightarrow> real \<Rightarrow> real option \<Rightarrow> bool" where
  "between lo hi None = False"
| "between lo hi (Some r) = (lo \<le> r \<and> r \<le> hi)"

definition between_sum :: "real \<Rightarrow> real \<Rightarrow> real option list \<Rightarrow> int" where
  "between_sum lo hi s = int (length (filter (between lo hi) s))"

section \<open>The coordinates report\<close>

record CoordinatesReport =
  has_coordinates_fields :: bool
  invalid_decimal_latitude_count :: int
  invalid_decimal_longitude_count :: int

text \<open>
  \<^verbatim>\<open>generate_coordinates_report(dataframe, warnings)\<close>: the list \<open>warnings\<close> is
  appended to in place, so the model returns it with the report.
\<close>

definition generate_coordinates_report ::
  "(string \<Rightarrow> real option) \<Rightarrow> dataframe \<Rightarrow> string list \<Rightarrow> CoordinatesReport \<times> string list"
where
  "generate_coordinates_report parse df warnings =
     (case column df ''decimalLatitude'' of
        None \<Rightarrow>
          (\<lparr>has_coordinates_fields = False, invalid_decimal_latitude_count = 0,
            invalid_decimal_longitude_count = 0\<rparr>, warnings)
      | Some lat \<Rightarrow>
          (case column df ''decimalLongitude'' of
             None \<Rightarrow>
               (\<lparr>has_coordinates_fields = False, invalid_decimal_latitude_count = 0,
                 invalid_decimal_longitude_count = 0\<rparr>, warnings)
           | Some lon \<Rightarrow>
               (let lat_column_non_empty_count = count_nonnull lat;
                    lon_column_non_empty_count = count_nonnull lon;
                    lat_column = map (to_numeric parse) lat;
                    lon_column = map (to_numeric parse) lon;
                    lat_valid_count = between_sum (- 90) 90 lat_column;
                    lon_valid_count = between_sum (- 180) 180 lon_column
                in if lat_valid_count = lat_column_non_empty_count
                      \<and> lon_valid_count = lon_column_non_empty_count
                   then (\<lparr>has_coordinates_fields = True, invalid_decimal_latitude_count = 0,
                          invalid_decimal_longitude_count = 0\<rparr>, warnings)
                   else (\<lparr>has_coordinates_fields = True,
                          invalid_decimal_latitude_count =
                            lat_column_non_empty_count - lat_valid_count,
                          invalid_decimal_longitude_count =
                            lon_column_non_empty_count - lon_valid_count\<rparr>,
                         warnings @ [''INVALID_OR_OUT_OF_RANGE_COORDINATES'']))))"

section \<open>Identifier fields\<close>

text \<open>
  \<^verbatim>\<open>Series.nunique()\<close> counts the distinct non-null values;
  \<^verbatim>\<open>Series.duplicated()\<close> marks every row whose value stands in an earlier row.
\<close>

definition nunique :: "cell list \<Rightarrow> int" where
  "nunique s = int (length (remdups (dropna s)))"

fun duplicated :: "cell list \<Rightarrow> cell list \<Rightarrow> bool list" where
  "duplicated seen [] = []"
| "duplicated seen (c # cs) = (c \<in> set seen) # duplicated (c # seen) cs"

definition duplicated_sum :: "cell list \<Rightarrow> int" where
  "duplicated_sum s = int (length (filter (\<lambda>b. b) (duplicated [] s)))"

text \<open>
  Lines 312 to 320 of \<^verbatim>\<open>check_id_fields\<close>: the series of a candidate. A candidate
  equal to \<open>id_term\<close> reads \<^verbatim>\<open>dataframe['id']\<close>, which raises KeyError when the frame
  has no such column; any other candidate is looked up under its own name, and
  \<open>None\<close> stands for the \<^verbatim>\<open>else\<close> branch of a column that is not there.
\<close>

definition resolve_id_field :: "string \<Rightarrow> dataframe \<Rightarrow> string \<Rightarrow> error + cell list option" where
  "resolve_id_field id_term df f =
     (if id_term = f then
        (case column df ''id'' of
           None \<Rightarrow> Inl (KeyError ''id'')
         | Some id_field_series \<Rightarrow> Inr (Some id_field_series))
      else if f \<in> set (columns df) then Inr (column df f)
      else Inr None)"

text \<open>
  The loop of \<^verbatim>\<open>check_id_fields\<close> over the candidates; \<open>n\<close> is \<^verbatim>\<open>len(id_fields)\<close>.
  The result is the list \<open>errors\<close> as the call leaves it, and the exception raised or
  the count returned.
\<close>

fun check_id_loop ::
  "nat \<Rightarrow> string \<Rightarrow> dataframe \<Rightarrow> string list \<Rightarrow> string list \<Rightarrow> string list \<times> (error + int)"
where
  "check_id_loop n id_term df [] errors = (errors, Inr 0)"
| "check_id_loop n id_term df (f # rest) errors =
     (case resolve_id_field id_term df f of
        Inl e \<Rightarrow> (errors, Inl e)
      | Inr None \<Rightarrow> (errors @ [''MISSING_ID_FIELD''], Inr (int (nrows df)))
      | Inr (Some id_field_series) \<Rightarrow>
          (if notnull_all id_field_series then
             (if n = 1 then
                (if nunique id_field_series = int (nrows df)
                 then check_id_loop n id_term df rest errors
                 else (errors @ [''DUPLICATE_ID_FIELD_VALUES''],
                       Inr (duplicated_sum id_field_series)))
              else check_id_loop n id_term df rest errors)
           else (errors @ [''MISSING_ID_FIELD_VALUES''], Inr (isna_sum id_field_series))))"

text \<open>\<open>id_fields\<close> defaults to \<^verbatim>\<open>None\<close> in the caller; \<^verbatim>\<open>not id_fields\<close> holds of
  \<^verbatim>\<open>None\<close> and of the empty list.\<close>

definition check_id_fields ::
  "string list option \<Rightarrow> string \<Rightarrow> dataframe \<Rightarrow> string list \<Rightarrow> string list \<times> (error + int)"
where
  "check_id_fields id_fields id_term df errors =
     (case id_fields of
        None \<Rightarrow> (errors, Inr 0)
      | Some fs \<Rightarrow>
          (if fs = [] then (errors, Inr 0)
           else check_id_loop (length fs) id_term df fs errors))"

section \<open>Numeric fields\<close>

definition numeric_fields :: "string list" where
  "numeric_fields =
     [''decimalLatitude'', ''decimalLongitude'', ''coordinateUncertaintyInMeters'',
      ''coordinatePrecision'', ''elevation'', ''depth'', ''minimumDepthInMeters'',
      ''maximumDepthInMeters'', ''minimumDistanceAboveSurfaceInMeters'',
      ''maximumDistanceAboveSurfaceInMeters'', ''individualCount'', ''organismQuantity'',
      ''organismSize'', ''sampleSizeValue'', ''temperatureInCelsius'', ''organismAge'',
      ''year'', ''month'', ''day'', ''startDayOfYear'', ''endDayOfYear'']"

text \<open>
  \<^verbatim>\<open>str.upper()\<close> is applied to the names of \<open>numeric_fields\<close> only. They are ASCII,
  and on an ASCII string \<^verbatim>\<open>str.upper()\<close> is \<open>ascii_upper\<close>. \<^verbatim>\<open>str.lower()\<close> is applied
  to the cells of a frame and to a vocabulary, which may hold any character: it is a
  parameter of the model, \<open>lower\<close>, and \<open>ascii_lower\<close> is what it does on an ASCII
  string.
\<close>

definition upper_char :: "char \<Rightarrow> char" where
  "upper_char c =
     (case map_of (zip ''abcdefghijklmnopqrstuvwxyz'' ''ABCDEFGHIJKLMNOPQRSTUVWXYZ'') c of
        None \<Rightarrow> c | Some u \<Rightarrow> u)"

definition ascii_upper :: "string \<Rightarrow> string" where
  "ascii_upper s = map upper_char s"

definition lower_char :: "char \<Rightarrow> char" where
  "lower_char c =
     (case map_of (zip ''ABCDEFGHIJKLMNOPQRSTUVWXYZ'' ''abcdefghijklmnopqrstuvwxyz'') c of
        None \<Rightarrow> c | Some l \<Rightarrow> l)"

definition ascii_lower :: "string \<Rightarrow> string" where
  "ascii_lower s = map lower_char s"

text \<open>
  The test of lines 452 and 453 on one element \<open>x\<close> of the coerced series:
  \<^verbatim>\<open>pd.isna(x) or is_numeric_dtype(x) or is_float(x) or is_integer(x)\<close>. An element of
  the coerced series is NaN (\<open>None\<close>), on which \<^verbatim>\<open>pd.isna\<close> holds, or a float or an
  integer, on which \<^verbatim>\<open>is_float\<close> or \<^verbatim>\<open>is_integer\<close> holds; NaN is itself a float.
  The disjunct \<^verbatim>\<open>is_numeric_dtype(x)\<close> is left out: the other three decide the
  disjunction on every element.
\<close>

fun isna :: "real option \<Rightarrow> bool" where
  "isna None = True"
| "isna (Some r) = False"

fun is_float_or_integer :: "real option \<Rightarrow> bool" where
  "is_float_or_integer None = True"
| "is_float_or_integer (Some r) = True"

definition is_numeric_or_empty :: "real option \<Rightarrow> bool" where
  "is_numeric_or_empty x = (isna x \<or> is_float_or_integer x)"

fun numeric_fields_loop ::
  "(string \<Rightarrow> real option) \<Rightarrow> dataframe \<Rightarrow> string list \<Rightarrow> string list \<Rightarrow> string list"
where
  "numeric_fields_loop parse df [] warnings = warnings"
| "numeric_fields_loop parse df (f # rest) warnings =
     (case column df f of
        None \<Rightarrow> numeric_fields_loop parse df rest warnings
      | Some s \<Rightarrow>
          (let numeric_test = map (to_numeric parse) s;
               is_valid = list_all is_numeric_or_empty numeric_test
           in if \<not> is_valid
              then numeric_fields_loop parse df rest
                     (warnings @ [''NON_NUMERIC_VALUES_IN_'' @ ascii_upper f])
              else numeric_fields_loop parse df rest warnings))"

definition validate_numeric_fields ::
  "(string \<Rightarrow> real option) \<Rightarrow> dataframe \<Rightarrow> string list \<Rightarrow> string list"
where
  "validate_numeric_fields parse df warnings = numeric_fields_loop parse df numeric_fields warnings"

section \<open>The vocabulary report\<close>

record VocabularyReport =
  field :: string
  has_field :: bool
  recognised_count :: int
  unrecognised_count :: int
  non_matching_values :: "string list"

text \<open>
  \<^verbatim>\<open>Series.str\<close> is available on a column of dtype object only; on a numeric column
  pandas raises AttributeError. pandas infers the dtype from the cells: a column is of
  dtype object when it holds a string, and numeric when it holds numbers and NaN only.
  On an object column \<^verbatim>\<open>.str.lower()\<close> gives NaN for a cell that is not a string.
\<close>

fun is_str :: "cell \<Rightarrow> bool" where
  "is_str (Str s) = True"
| "is_str c = False"

definition str_accessor :: "cell list \<Rightarrow> error + cell list" where
  "str_accessor s =
     (if list_ex is_str s then Inr s
      else Inl (AttributeError ''Can only use .str accessor with string values''))"

fun str_lower :: "(string \<Rightarrow> string) \<Rightarrow> cell \<Rightarrow> string option" where
  "str_lower lower (Str s) = Some (lower s)"
| "str_lower lower c = None"

text \<open>\<^verbatim>\<open>Series.isin(values)\<close> on one element; NaN is in no vocabulary.\<close>

fun isin :: "string list \<Rightarrow> string option \<Rightarrow> bool" where
  "isin vs None = False"
| "isin vs (Some v) = (v \<in> set vs)"

text \<open>
  \<^verbatim>\<open>x.astype(numpy.str_)\<close> on one element: NaN becomes the string \<^verbatim>\<open>nan\<close> and
  \<^verbatim>\<open>None\<close> the string \<^verbatim>\<open>None\<close>; how Python prints a number is the parameter \<open>num_str\<close>. \<^verbatim>\<open>numpy.unique\<close> returns the distinct
  values in ascending order.
\<close>

fun astype_str :: "(real \<Rightarrow> string) \<Rightarrow> cell \<Rightarrow> string" where
  "astype_str num_str Null = ''nan''"
| "astype_str num_str PyNone = ''None''"
| "astype_str num_str (Num r) = num_str r"
| "astype_str num_str (Str s) = s"

definition numpy_unique :: "string list \<Rightarrow> string list" where
  "numpy_unique xs = sort (remdups xs)"

text \<open>
  \<^verbatim>\<open>create_vocabulary_report(dataframe, field, controlled_vocabulary)\<close>. The body of
  the \<^verbatim>\<open>try\<close> of lines 386 to 390 repeats \<^verbatim>\<open>.str.lower()\<close> on the column that
  line 376 has already read through \<^verbatim>\<open>.str\<close>, so it raises nothing that line 376
  did not, and its \<^verbatim>\<open>except\<close> branch is never taken.
\<close>

definition create_vocabulary_report ::
  "(string \<Rightarrow> string) \<Rightarrow> (real \<Rightarrow> string) \<Rightarrow> dataframe \<Rightarrow> string \<Rightarrow> string list
     \<Rightarrow> error + VocabularyReport"
where
  "create_vocabulary_report lower num_str df f controlled_vocabulary =
     (case column df f of
        None \<Rightarrow>
          Inr \<lparr>field = f, has_field = False, recognised_count = 0, unrecognised_count = 0,
               non_matching_values = []\<rparr>
      | Some s \<Rightarrow>
          (let not_populated_count = isna_sum s;
               populated_values = dropna s
           in if length populated_values > 0 then
                (case str_accessor populated_values of
                   Inl e \<Rightarrow> Inl e
                 | Inr values \<Rightarrow>
                     (let field_values_lower = map (str_lower lower) values;
                          controlled_vocabulary_lower = map lower controlled_vocabulary;
                          matching_records_count =
                            int (length (filter (isin controlled_vocabulary_lower) field_values_lower));
                          x = filter (\<lambda>c. \<not> isin controlled_vocabulary_lower (str_lower lower c)) s;
                          non_matching =
                            remove1 ''nan'' (take 10 (numpy_unique (map (astype_str num_str) x)))
                      in Inr \<lparr>field = f, has_field = True,
                              recognised_count = matching_records_count,
                              unrecognised_count =
                                int (nrows df) - (not_populated_count + matching_records_count),
                              non_matching_values = non_matching\<rparr>))
              else
                Inr \<lparr>field = f, has_field = True, recognised_count = 0,
                     unrecognised_count = int (nrows df) - (not_populated_count + 0),
                     non_matching_values = []\<rparr>))"

section \<open>The report classes\<close>

text \<open>
  The classes of \<^verbatim>\<open>model.py\<close> are records. A report holds its collections by
  reference; the type \<open>'c\<close> (and \<open>'m\<close> below) is what a collection argument is to the
  caller: the collection itself where only its contents matter, its address in the
  store where its identity matters.

  Every call of a constructor in \<^verbatim>\<open>validate.py\<close> passes its arguments by keyword.
  The record of a call holds \<open>None\<close> for a parameter the call does not pass, and in
  \<open>kw_unknown\<close> the keywords of the call that are not parameters of \<^verbatim>\<open>__init__\<close>.
  Python raises TypeError for such a keyword, and for a parameter without a default
  that the call does not pass.
\<close>

record 'c TaxonReport =
  has_invalid_taxa :: bool
  unrecognised_taxa :: 'c
  suggested_names :: 'c

record 'c TaxonReport_kwargs =
  kw_has_invalid_taxa :: "bool option"
  kw_unrecognised_taxa :: "'c option"
  kw_suggested_names :: "'c option"
  kw_unknown :: "string list"

text \<open>
  \<^verbatim>\<open>TaxonReport.__init__(self, has_invalid_taxa=False, unrecognised_taxa=[],
  suggested_names={})\<close>. The default values are objects made once, when the
  \<^verbatim>\<open>def\<close> statement runs; they are the first two arguments here.
\<close>

definition TaxonReport_init ::
  "'c \<Rightarrow> 'c \<Rightarrow> 'c TaxonReport_kwargs \<Rightarrow> error + 'c TaxonReport"
where
  "TaxonReport_init default_unrecognised_taxa default_suggested_names kw =
     (case kw_unknown kw of
        k # ks \<Rightarrow> Inl (TypeError_unexpected k)
      | [] \<Rightarrow>
          Inr \<lparr>has_invalid_taxa =
                 (case kw_has_invalid_taxa kw of None \<Rightarrow> False | Some b \<Rightarrow> b),
               unrecognised_taxa =
                 (case kw_unrecognised_taxa kw of
                    None \<Rightarrow> default_unrecognised_taxa | Some t \<Rightarrow> t),
               suggested_names =
                 (case kw_suggested_names kw of
                    None \<Rightarrow> default_suggested_names | Some n \<Rightarrow> n)\<rparr>)"

record ('c, 'm) DFValidationReport =
  record_type :: string
  record_count :: int
  errors :: "string list"
  warnings :: "string list"
  coordinates_report :: "CoordinatesReport option"
  column_counts :: "(string \<times> int) list"
  record_error_count :: int
  records_with_taxonomy_count :: int
  taxonomy_report :: "'c TaxonReport option"
  records_with_temporal_count :: int
  records_with_recorded_by_count :: int
  vocab_reports :: "VocabularyReport list option"
  all_required_columns_present :: bool
  missing_columns :: 'm

record ('c, 'm) DFValidationReport_kwargs =
  kw_record_type :: "string option"
  kw_record_count :: "int option"
  kw_errors :: "string list option"
  kw_warnings :: "string list option"
  kw_column_counts :: "(string \<times> int) list option"
  kw_record_error_count :: "int option"
  kw_coordinates_report :: "CoordinatesReport option option"
  kw_records_with_taxonomy_count :: "int option"
  kw_taxonomy_report :: "'c TaxonReport option option"
  kw_records_with_temporal_count :: "int option"
  kw_records_with_recorded_by_count :: "int option"
  kw_vocab_reports :: "VocabularyReport list option"
  kw_all_required_columns_present :: "bool option"
  kw_missing_columns :: "'m option"

text \<open>The call that passes nothing; a call site updates the fields it passes.\<close>

definition no_kwargs :: "('c, 'm) DFValidationReport_kwargs" where
  "no_kwargs =
     \<lparr>kw_record_type = None, kw_record_count = None, kw_errors = None, kw_warnings = None,
      kw_column_counts = None, kw_record_error_count = None, kw_coordinates_report = None,
      kw_records_with_taxonomy_count = None, kw_taxonomy_report = None,
      kw_records_with_temporal_count = None, kw_records_with_recorded_by_count = None,
      kw_vocab_reports = None, kw_all_required_columns_present = None,
      kw_missing_columns = None\<rparr>"

text \<open>
  \<^verbatim>\<open>DFValidationReport.__init__\<close>: the first eleven parameters have no default;
  \<^verbatim>\<open>vocab_reports=None\<close>, \<^verbatim>\<open>all_required_columns_present=False\<close> and
  \<^verbatim>\<open>missing_columns=[]\<close> have one.
\<close>

definition DFValidationReport_missing :: "('c, 'm) DFValidationReport_kwargs \<Rightarrow> string list" where
  "DFValidationReport_missing kw =
     map fst (filter (\<lambda>p. \<not> snd p)
       [(''record_type'', kw_record_type kw \<noteq> None),
        (''record_count'', kw_record_count kw \<noteq> None),
        (''errors'', kw_errors kw \<noteq> None),
        (''warnings'', kw_warnings kw \<noteq> None),
        (''column_counts'', kw_column_counts kw \<noteq> None),
        (''record_error_count'', kw_record_error_count kw \<noteq> None),
        (''coordinates_report'', kw_coordinates_report kw \<noteq> None),
        (''records_with_taxonomy_count'', kw_records_with_taxonomy_count kw \<noteq> None),
        (''taxonomy_report'', kw_taxonomy_report kw \<noteq> None),
        (''records_with_temporal_count'', kw_records_with_temporal_count kw \<noteq> None),
        (''records_with_recorded_by_count'', kw_records_with_recorded_by_count kw \<noteq> None)])"

definition DFValidationReport_init ::
  "'m \<Rightarrow> ('c, 'm) DFValidationReport_kwargs \<Rightarrow> error + ('c, 'm) DFValidationReport"
where
  "DFValidationReport_init default_missing_columns kw =
     (if DFValidationReport_missing kw \<noteq> []
      then Inl (TypeError_missing (DFValidationReport_missing kw))
      else
        Inr \<lparr>record_type = the (kw_record_type kw),
             record_count = the (kw_record_count kw),
             errors = the (kw_errors kw),
             warnings = the (kw_warnings kw),
             coordinates_report = the (kw_coordinates_report kw),
             column_counts = the (kw_column_counts kw),
             record_error_count = the (kw_record_error_count kw),
             records_with_taxonomy_count = the (kw_records_with_taxonomy_count kw),
             taxonomy_report = the (kw_taxonomy_report kw),
             records_with_temporal_count = the (kw_records_with_temporal_count kw),
             records_with_recorded_by_count = the (kw_records_with_recorded_by_count kw),
             vocab_reports = kw_vocab_reports kw,
             all_required_columns_present =
               (case kw_all_required_columns_present kw of None \<Rightarrow> False | Some b \<Rightarrow> b),
             missing_columns =
               (case kw_missing_columns kw of
                  None \<Rightarrow> default_missing_columns | Some m \<Rightarrow> m)\<rparr>)"

subsection \<open>The store of list and dict objects\<close>

text \<open>
  Python lists and dicts are objects in a store; a variable or an attribute holds the
  address of one. \<^verbatim>\<open>[]\<close> and \<^verbatim>\<open>{}\<close> allocate a new object each time they are
  evaluated. Importing \<^verbatim>\<open>model.py\<close> runs the two \<^verbatim>\<open>def __init__\<close> statements,
  which evaluate their default values once each.
\<close>

type_synonym addr = nat

datatype container = PyList "string list" | PyDict "(string \<times> string) list"

record store =
  next_addr :: addr
  objects :: "addr \<Rightarrow> container option"

definition alloc :: "container \<Rightarrow> store \<Rightarrow> addr \<times> store" where
  "alloc c st =
     (next_addr st, \<lparr>next_addr = Suc (next_addr st), objects = (objects st)(next_addr st \<mapsto> c)\<rparr>)"

record model_defaults =
  TaxonReport_unrecognised_taxa_default :: addr
  TaxonReport_suggested_names_default :: addr
  DFValidationReport_missing_columns_default :: addr

definition import_model :: "store \<Rightarrow> model_defaults \<times> store" where
  "import_model st =
     (case alloc (PyList []) st of (a1, st1) \<Rightarrow>
      case alloc (PyDict []) st1 of (a2, st2) \<Rightarrow>
      case alloc (PyList []) st2 of (a3, st3) \<Rightarrow>
        (\<lparr>TaxonReport_unrecognised_taxa_default = a1,
          TaxonReport_suggested_names_default = a2,
          DFValidationReport_missing_columns_default = a3\<rparr>, st3))"

text \<open>\<^verbatim>\<open>lst.append(x)\<close> through the address of the list.\<close>

definition list_append :: "addr \<Rightarrow> string \<Rightarrow> store \<Rightarrow> store" where
  "list_append a x st =
     (case objects st a of
        Some (PyList xs) \<Rightarrow> st\<lparr>objects := (objects st)(a \<mapsto> PyList (xs @ [x]))\<rparr>
      | _ \<Rightarrow> st)"

text \<open>\<^verbatim>\<open>d[k] = v\<close> through the address of the dict.\<close>

definition dict_setitem :: "addr \<Rightarrow> string \<Rightarrow> string \<Rightarrow> store \<Rightarrow> store" where
  "dict_setitem a k v st =
     (case objects st a of
        Some (PyDict kvs) \<Rightarrow>
          st\<lparr>objects := (objects st)(a \<mapsto> PyDict (filter (\<lambda>p. fst p \<noteq> k) kvs @ [(k, v)]))\<rparr>
      | _ \<Rightarrow> st)"

section \<open>Required fields\<close>

text \<open>
  \<^verbatim>\<open>dwc_validator/vocab.py\<close> is not among the sources: its constants are the fields of
  the parameter \<open>vocab\<close>. \<open>taxon_terms_Australia\<close> is \<^verbatim>\<open>taxon_terms["Australia"]\<close>.
\<close>

record vocab =
  basis_of_record_vocabulary :: "string list"
  geodetic_datum_vocabulary :: "string list"
  taxon_terms_Australia :: "string list"
  required_columns_spatial_vocab :: "string list"
  required_columns_other :: "string list"
  required_taxonomy_columns :: "string list"

text \<open>
  \<^verbatim>\<open>validate_required_fields\<close> returns the integer 0 when none of the fields is a
  column, and otherwise, for the fields that are columns, in the order of
  \<open>required_fields\<close>, the series of their non-null counts.
\<close>

datatype required_counts = IntZero | PerField "(string \<times> int) list"

definition validate_required_fields :: "dataframe \<Rightarrow> string list \<Rightarrow> required_counts" where
  "validate_required_fields df required_fields =
     (if \<not> list_ex (\<lambda>f. f \<in> set (columns df)) required_fields then IntZero
      else PerField
             (List.map_filter
                (\<lambda>f. case column df f of None \<Rightarrow> None | Some s \<Rightarrow> Some (f, count_nonnull s))
                required_fields))"

text \<open>
  \<^verbatim>\<open>int(x)\<close> on what \<^verbatim>\<open>validate_required_fields\<close> returned: pandas 2 converts a
  series of one element and raises TypeError on any other series.
\<close>

fun py_int :: "required_counts \<Rightarrow> error + int" where
  "py_int IntZero = Inr 0"
| "py_int (PerField [(f, n)]) = Inr n"
| "py_int (PerField cs) = Inl TypeError_int"

section \<open>The taxonomy report\<close>

text \<open>
  The name-matching service is an external collaborator: three functions. A request
  is answered, or it fails (\<open>None\<close>): the connection is refused, or the answer is not
  JSON. No request of \<^verbatim>\<open>create_taxonomy_report\<close> stands in a \<^verbatim>\<open>try\<close>, so a failure is
  raised to the caller. Of an entry of the batch answer only its \<^verbatim>\<open>scientificName\<close> is
  read (\<open>None\<close>: the entry has none). An autocomplete candidate has a name, a rank
  that may be null, a classification \<^verbatim>\<open>cl\<close> and an optional list \<^verbatim>\<open>synonymMatch\<close>.
  The answer of the exact search has \<^verbatim>\<open>success\<close>, \<^verbatim>\<open>scientificName\<close>, \<^verbatim>\<open>rank\<close> and
  its other keys, the classification fields.
\<close>

record synonym_match =
  syn_name :: string
  syn_rank :: "string option"
  syn_cl :: "(string \<times> string) list"

record autocomplete_match =
  ac_name :: string
  ac_rank :: "string option"
  ac_cl :: "(string \<times> string) list"
  ac_synonymMatch :: "synonym_match list option"

record search_match =
  sr_success :: bool
  sr_scientificName :: string
  sr_rank :: "string option"
  sr_fields :: "(string \<times> string) list"

record name_service =
  searchAllByClassification :: "cell list \<Rightarrow> string option list option"
  autocomplete :: "string \<Rightarrow> nat \<Rightarrow> bool \<Rightarrow> autocomplete_match list option"
  search :: "string \<Rightarrow> search_match option"

text \<open>\<^verbatim>\<open>"%20".join(item.split(" "))\<close>.\<close>

definition url_query :: "string \<Rightarrow> string" where
  "url_query item = concat (map (\<lambda>c. if c = CHR '' '' then ''%20'' else [c]) item)"

text \<open>
  \<open>invalid_taxon_dict\<close> maps a term to the list of values recorded under it;
  \<^verbatim>\<open>invalid_taxon_dict[k].append(v)\<close> is \<open>dict_append\<close>.
\<close>

type_synonym taxon_dict = "(string \<times> string option list) list"

definition dict_append :: "string \<Rightarrow> string option \<Rightarrow> taxon_dict \<Rightarrow> taxon_dict" where
  "dict_append k v d = map (\<lambda>p. if fst p = k then (fst p, snd p @ [v]) else p) d"

text \<open>Lines 516 to 518 (and 529 to 531, 544 to 546): the name and its proposed match.\<close>

definition record_match :: "string \<Rightarrow> string \<Rightarrow> string option \<Rightarrow> taxon_dict \<Rightarrow> taxon_dict" where
  "record_match item name rank d =
     dict_append ''rank of proposed match(es)'' rank
       (dict_append ''proposed match(es)'' (Some name)
          (dict_append ''original name'' (Some item) d))"

text \<open>Lines 519 to 523 (and 547 to 551): every term gets the value of the
  classification, or \<^verbatim>\<open>None\<close>.\<close>

fun append_terms :: "string list \<Rightarrow> (string \<times> string) list \<Rightarrow> taxon_dict \<Rightarrow> taxon_dict" where
  "append_terms [] cl d = d"
| "append_terms (t # ts) cl d =
     append_terms ts cl
       (case map_of cl t of
          Some v \<Rightarrow> dict_append t (Some v) d
        | None \<Rightarrow> dict_append t None d)"

text \<open>
  Lines 532 to 536: in the branch of the synonyms the \<^verbatim>\<open>else\<close> stands under the
  \<^verbatim>\<open>for\<close>: a term that the classification lacks gets nothing, and after the loop
  \<^verbatim>\<open>None\<close> is appended under the last term (\<^verbatim>\<open>term\<close> is not bound when the list of
  terms is empty).
\<close>

fun append_terms_present ::
  "string list \<Rightarrow> (string \<times> string) list \<Rightarrow> taxon_dict \<Rightarrow> taxon_dict"
where
  "append_terms_present [] cl d = d"
| "append_terms_present (t # ts) cl d =
     append_terms_present ts cl
       (case map_of cl t of
          Some v \<Rightarrow> dict_append t (Some v) d
        | None \<Rightarrow> d)"

fun record_synonyms ::
  "string list \<Rightarrow> string \<Rightarrow> synonym_match list \<Rightarrow> taxon_dict \<Rightarrow> error + taxon_dict"
where
  "record_synonyms terms item [] d = Inr d"
| "record_synonyms terms item (synonym # rest) d =
     (if syn_rank synonym \<noteq> None then
        (if terms = [] then Inl (UnboundLocalError ''term'')
         else record_synonyms terms item rest
                (dict_append (last terms) None
                   (append_terms_present terms (syn_cl synonym)
                      (record_match item (syn_name synonym) (syn_rank synonym) d))))
      else record_synonyms terms item rest d)"

text \<open>Line 507: an entry of the batch answer matches a name of the frame when it has
  a \<^verbatim>\<open>scientificName\<close> equal to it.\<close>

fun entry_matches :: "cell \<Rightarrow> string option \<Rightarrow> bool" where
  "entry_matches (Str s) (Some n) = (n = s)"
| "entry_matches item d = False"

text \<open>
  Lines 507 to 556, the body of the loop for one name. The state is
  \<open>has_invalid_taxa\<close> and \<open>invalid_taxon_dict\<close>. \<^verbatim>\<open>item.split\<close> exists on a string
  only. \<^verbatim>\<open>sys.exit()\<close> raises SystemExit.
\<close>

definition resolve_name ::
  "string list \<Rightarrow> name_service \<Rightarrow> nat \<Rightarrow> bool \<Rightarrow> string option list \<Rightarrow> cell
     \<Rightarrow> bool \<times> taxon_dict \<Rightarrow> error + bool \<times> taxon_dict"
where
  "resolve_name terms svc num_matches include_synonyms response_json item st =
     (if list_ex (entry_matches item) response_json then Inr st
      else
        (case item of
           Str name \<Rightarrow>
             (case autocomplete svc (url_query name) num_matches include_synonyms of
                None \<Rightarrow> Inl RequestError
              | Some (first # others) \<Rightarrow>
                  (if ac_rank first \<noteq> None then
                     Inr (True,
                          append_terms terms (ac_cl first)
                            (record_match name (ac_name first) (ac_rank first) (snd st)))
                   else
                     (case ac_synonymMatch first of
                        None \<Rightarrow> Inl (KeyError ''synonymMatch'')
                      | Some synonyms \<Rightarrow>
                          (case record_synonyms terms name synonyms (snd st) of
                             Inl e \<Rightarrow> Inl e
                           | Inr d \<Rightarrow> Inr (True, d))))
              | Some [] \<Rightarrow>
                  (case search svc (url_query name) of
                     None \<Rightarrow> Inl RequestError
                   | Some response_search_json \<Rightarrow>
                       (if sr_success response_search_json then
                          Inr (True,
                               append_terms terms (sr_fields response_search_json)
                                 (record_match name (sr_scientificName response_search_json)
                                    (sr_rank response_search_json) (snd st)))
                        else Inl SystemExit)))
         | Null \<Rightarrow> Inl (AttributeError ''split'')
         | PyNone \<Rightarrow> Inl (AttributeError ''split'')
         | Num r \<Rightarrow> Inl (AttributeError ''split'')))"

fun resolve_names ::
  "string list \<Rightarrow> name_service \<Rightarrow> nat \<Rightarrow> bool \<Rightarrow> string option list \<Rightarrow> cell list
     \<Rightarrow> bool \<times> taxon_dict \<Rightarrow> error + bool \<times> taxon_dict"
where
  "resolve_names terms svc num_matches include_synonyms response_json [] st = Inr st"
| "resolve_names terms svc num_matches include_synonyms response_json (item # rest) st =
     (case resolve_name terms svc num_matches include_synonyms response_json item st of
        Inl e \<Rightarrow> Inl e
      | Inr st' \<Rightarrow> resolve_names terms svc num_matches include_synonyms response_json rest st')"

text \<open>Lines 562 to 566: the loop over \<^verbatim>\<open>valid_data.items()\<close>; \<open>n\<close> is the row count.\<close>

fun min_populated :: "int \<Rightarrow> (string \<times> int) list \<Rightarrow> int \<Rightarrow> int" where
  "min_populated n [] valid_taxon_count = valid_taxon_count"
| "min_populated n (entry # rest) valid_taxon_count =
     min_populated n rest
       (if fst entry \<noteq> ''vernacularName'' \<and> snd entry < n \<and> snd entry < valid_taxon_count
        then snd entry else valid_taxon_count)"

text \<open>Lines 558 to 570. The integer 0 has no \<^verbatim>\<open>items\<close>.\<close>

definition valid_taxon_count :: "vocab \<Rightarrow> dataframe \<Rightarrow> bool \<Rightarrow> error + int" where
  "valid_taxon_count vocab df has_invalid =
     (if \<not> has_invalid then
        (case validate_required_fields df (required_taxonomy_columns vocab) of
           IntZero \<Rightarrow> Inl (AttributeError ''items'')
         | PerField valid_data \<Rightarrow>
             (let v = min_populated (int (nrows df)) valid_data 999
              in Inr (if int (nrows df) < v then int (nrows df) else v)))
      else Inr 0)"

text \<open>
  Lines 501 and 502: the dict with an empty list under every term. A Python dict keeps
  a key at the place of its first occurrence.
\<close>

fun first_occurrences :: "string list \<Rightarrow> string list \<Rightarrow> string list" where
  "first_occurrences seen [] = []"
| "first_occurrences seen (x # xs) =
     (if x \<in> set seen then first_occurrences seen xs
      else x # first_occurrences (x # seen) xs)"

definition empty_taxon_dict :: "vocab \<Rightarrow> taxon_dict" where
  "empty_taxon_dict vocab =
     map (\<lambda>x. (x, []))
       (first_occurrences []
          ([''original name'', ''proposed match(es)'', ''rank of proposed match(es)'']
             @ taxon_terms_Australia vocab))"

text \<open>
  \<^verbatim>\<open>create_taxonomy_report(dataframe, num_matches=5, include_synonyms=True)\<close>. The
  names are the distinct cells of the column; Python fixes no order for the elements
  of a set, the model takes them in the order of \<open>remdups\<close>. The call of the
  constructor passes \<^verbatim>\<open>has_invalid_taxa\<close>, \<^verbatim>\<open>unrecognised_taxa\<close> and
  \<^verbatim>\<open>valid_taxon_count\<close>.
\<close>

definition create_taxonomy_report ::
  "vocab \<Rightarrow> name_service \<Rightarrow> dataframe \<Rightarrow> nat \<Rightarrow> bool \<Rightarrow> error + taxon_dict TaxonReport option"
where
  "create_taxonomy_report vocab svc df num_matches include_synonyms =
     (case column df ''scientificName'' of
        None \<Rightarrow> Inr None
      | Some names \<Rightarrow>
          (let scientific_names_list = remdups names
           in case searchAllByClassification svc scientific_names_list of
                None \<Rightarrow> Inl RequestError
              | Some response_json \<Rightarrow>
                  (case resolve_names (taxon_terms_Australia vocab) svc num_matches
                          include_synonyms response_json scientific_names_list
                          (False, empty_taxon_dict vocab) of
                     Inl e \<Rightarrow> Inl e
                   | Inr st \<Rightarrow>
                       (case valid_taxon_count vocab df (fst st) of
                          Inl e \<Rightarrow> Inl e
                        | Inr count \<Rightarrow>
                            (case TaxonReport_init [] []
                                    \<lparr>kw_has_invalid_taxa = Some (fst st),
                                     kw_unrecognised_taxa = Some (snd st),
                                     kw_suggested_names = None,
                                     kw_unknown = [''valid_taxon_count'']\<rparr> of
                               Inl e \<Rightarrow> Inl e
                             | Inr report \<Rightarrow> Inr (Some report))))))"

section \<open>The two entry points\<close>

text \<open>
  The attributes of the report classes are the selectors of the records above, so the
  local variables of \<^verbatim>\<open>validate.py\<close> that bear the same names are written shorter
  from here on: \<open>errs\<close> for \<^verbatim>\<open>errors\<close>, \<open>warns\<close> for \<^verbatim>\<open>warnings\<close>, \<open>missing\<close> for
  \<^verbatim>\<open>missing_columns\<close>, \<open>coords\<close> for \<^verbatim>\<open>coordinates_report\<close>, \<open>taxonomy\<close> for
  \<^verbatim>\<open>taxonomy_report\<close>, \<open>error_count\<close> for \<^verbatim>\<open>record_error_count\<close> and
  \<open>all_present\<close> for \<^verbatim>\<open>all_required_columns_present\<close>.
\<close>

text \<open>
  Modelled from the spec: \<^verbatim>\<open>field_populated_counts\<close> of \<^verbatim>\<open>dwc_validator/breakdown.py\<close>,
  which is not among the sources. The spec calls it ColumnStats: it "computes
  per-column population counts for a dataset".
\<close>

definition field_populated_counts :: "dataframe \<Rightarrow> (string \<times> int) list" where
  "field_populated_counts df = map (\<lambda>c. (fst c, count_nonnull (snd c))) (frame_data df)"

text \<open>\<^verbatim>\<open>set(list(dataframe.columns)).issuperset(required)\<close> and
  \<^verbatim>\<open>list(set(required).difference(set(dataframe.columns)))\<close>; the order of the
  difference is not fixed by Python, the model keeps the order of \<open>required\<close>.\<close>

definition issuperset :: "dataframe \<Rightarrow> string list \<Rightarrow> bool" where
  "issuperset df required = list_all (\<lambda>r. r \<in> set (columns df)) required"

definition difference :: "string list \<Rightarrow> dataframe \<Rightarrow> string list" where
  "difference required df = filter (\<lambda>r. r \<notin> set (columns df)) (remdups required)"

text \<open>
  \<^verbatim>\<open>create_datetime_report\<close>: without a column eventDate it returns the set
  \<^verbatim>\<open>{True, dataframe.shape[0]}\<close>, in which \<^verbatim>\<open>True\<close> is the integer 1. With the column
  it prints \<^verbatim>\<open>event_dates[0]\<close>, a KeyError on a column with no row, and then calls
  \<^verbatim>\<open>sys.exit()\<close>.
\<close>

definition create_datetime_report :: "dataframe \<Rightarrow> error + int set" where
  "create_datetime_report df =
     (case column df ''eventDate'' of
        None \<Rightarrow> Inr {1, int (nrows df)}
      | Some event_dates \<Rightarrow>
          (case event_dates of
             [] \<Rightarrow> Inl (KeyError ''0'')
           | first # others \<Rightarrow> Inl SystemExit))"

text \<open>
  Lines 47 to 65 of \<^verbatim>\<open>validate_occurrence_dataframe\<close>: the list \<open>missing_columns\<close>
  and the taxonomy report after the check of the taxonomy columns.
\<close>

definition occurrence_taxonomy ::
  "vocab \<Rightarrow> name_service \<Rightarrow> dataframe \<Rightarrow> error + string list \<times> taxon_dict TaxonReport option"
where
  "occurrence_taxonomy vocab svc df =
     (if list_ex (\<lambda>v. v \<in> set (required_taxonomy_columns vocab)) (columns df) then
        (let check_missing_fields = issuperset df (required_taxonomy_columns vocab)
         in if \<not> check_missing_fields
            then Inr (difference (required_taxonomy_columns vocab) df, None)
            else if ''scientificName'' \<in> set (columns df) then
              (case create_taxonomy_report vocab svc df 5 True of
                 Inl e \<Rightarrow> Inl e
               | Inr report \<Rightarrow> Inr ([], report))
            else Inr ([], None))
      else Inr ([], None))"

text \<open>
  Lines 70 to 88. In the branch of a frame with no spatial column,
  \<open>check_missing_fields\<close> is the Boolean that \<^verbatim>\<open>issuperset\<close> returned, and line 83 tests
  \<^verbatim>\<open>type(check_missing_fields) is not bool and len(check_missing_fields) > 0\<close>: the
  first conjunct is false of every Boolean.
\<close>

definition type_is_not_bool :: "bool \<Rightarrow> bool" where
  "type_is_not_bool check_missing_fields = False"

definition occurrence_required_columns :: "vocab \<Rightarrow> dataframe \<Rightarrow> string list \<Rightarrow> string list" where
  "occurrence_required_columns vocab df missing =
     (if list_ex (\<lambda>v. v \<in> set (required_columns_spatial_vocab vocab)) (columns df) then
        (let check_missing_fields = issuperset df (required_columns_spatial_vocab vocab)
         in if \<not> check_missing_fields
            then difference (required_columns_spatial_vocab vocab) df
            else (let valid_data = validate_required_fields df (required_columns_spatial_vocab vocab)
                  in missing))
      else
        (let check_missing_fields = issuperset df (required_columns_other vocab)
         in if type_is_not_bool check_missing_fields
            then difference (required_columns_other vocab) df
                   @ [''MAYBE: decimalLatitude'', ''MAYBE: decimalLongitude'']
            else (let valid_data = validate_required_fields df (required_columns_other vocab)
                  in missing)))"

text \<open>Lines 91 to 101: one of the three identifier columns must be there.\<close>

definition occurrence_identifier_columns :: "dataframe \<Rightarrow> string list \<Rightarrow> string list" where
  "occurrence_identifier_columns df missing =
     (let any_present =
            list_ex (\<lambda>entry. issuperset df [entry])
              [''occurrenceID'', ''catalogNumber'', ''recordNumber'']
      in if \<not> any_present
         then missing @ [''occurrenceID OR catalogNumber OR recordNumber'']
         else missing)"

text \<open>
  Lines 119 to 131. Line 125 asks whether the list \<^verbatim>\<open>["geodeticDatum"]\<close> is among
  the column labels; a label is a string, and no string equals a list.
\<close>

definition list_equals_label :: "string list \<Rightarrow> string \<Rightarrow> bool" where
  "list_equals_label l label = False"

definition occurrence_vocabs_reports ::
  "(string \<Rightarrow> string) \<Rightarrow> (real \<Rightarrow> string) \<Rightarrow> vocab \<Rightarrow> dataframe
     \<Rightarrow> error + VocabularyReport list"
where
  "occurrence_vocabs_reports lower num_str vocab df =
     (case create_vocabulary_report lower num_str df ''basisOfRecord''
             (basis_of_record_vocabulary vocab) of
        Inl e \<Rightarrow> Inl e
      | Inr basis \<Rightarrow>
          (if list_ex (list_equals_label [''geodeticDatum'']) (columns df) then
             (case create_vocabulary_report lower num_str df ''geodeticDatum''
                     (geodetic_datum_vocabulary vocab) of
                Inl e \<Rightarrow> Inl e
              | Inr datum \<Rightarrow> Inr [basis, datum])
           else Inr [basis]))"

text \<open>
  \<^verbatim>\<open>validate_occurrence_dataframe(dataframe, id_fields=None, id_term="")\<close>. The
  call of the constructor passes twelve keywords; \<^verbatim>\<open>records_with_taxonomy_count\<close>
  and \<^verbatim>\<open>records_with_recorded_by_count\<close> are not among them.
\<close>

definition validate_occurrence_dataframe ::
  "(string \<Rightarrow> real option) \<Rightarrow> (string \<Rightarrow> string) \<Rightarrow> (real \<Rightarrow> string) \<Rightarrow> vocab
     \<Rightarrow> name_service \<Rightarrow> dataframe \<Rightarrow> string list option \<Rightarrow> string
     \<Rightarrow> error + (taxon_dict, string list) DFValidationReport"
where
  "validate_occurrence_dataframe parse lower num_str vocab svc df id_fields id_term =
     (case check_id_fields id_fields id_term df [] of
        (errs, Inl e) \<Rightarrow> Inl e
      | (errs, Inr error_count) \<Rightarrow>
          (let warns = validate_numeric_fields parse df []
           in case occurrence_taxonomy vocab svc df of
                Inl e \<Rightarrow> Inl e
              | Inr (missing_taxonomy, taxonomy) \<Rightarrow>
                  (let missing =
                         occurrence_identifier_columns df
                           (occurrence_required_columns vocab df missing_taxonomy);
                       all_present = (length missing = 0)
                   in case generate_coordinates_report parse df warns of
                        (coords, warns) \<Rightarrow>
                          (case create_datetime_report df of
                             Inl e \<Rightarrow> Inl e
                           | Inr datetime_report \<Rightarrow>
                               (case occurrence_vocabs_reports lower num_str vocab df of
                                  Inl e \<Rightarrow> Inl e
                                | Inr vocabs_reports \<Rightarrow>
                                    DFValidationReport_init []
                                      (no_kwargs
                                         \<lparr>kw_record_type := Some ''Occurrence'',
                                          kw_record_count := Some (int (nrows df)),
                                          kw_record_error_count := Some error_count,
                                          kw_errors := Some errs,
                                          kw_warnings := Some warns,
                                          kw_all_required_columns_present :=
                                            Some all_present,
                                          kw_missing_columns := Some missing,
                                          kw_column_counts := Some (field_populated_counts df),
                                          kw_records_with_temporal_count := Some 0,
                                          kw_coordinates_report := Some (Some coords),
                                          kw_taxonomy_report := Some taxonomy,
                                          kw_vocab_reports := Some vocabs_reports\<rparr>))))))"

text \<open>
  \<^verbatim>\<open>validate_event_dataframe(dataframe)\<close>. The call of the constructor passes eleven
  keywords; \<^verbatim>\<open>taxonomy_report\<close> is not among them.
\<close>

definition validate_event_dataframe ::
  "(string \<Rightarrow> real option) \<Rightarrow> (string \<Rightarrow> string) \<Rightarrow> (real \<Rightarrow> string) \<Rightarrow> vocab
     \<Rightarrow> dataframe \<Rightarrow> error + (taxon_dict, string list) DFValidationReport"
where
  "validate_event_dataframe parse lower num_str vocab df =
     (case check_id_fields (Some [''eventID'']) [] df [] of
        (errs, Inl e) \<Rightarrow> Inl e
      | (errs, Inr error_count) \<Rightarrow>
          (let warns = validate_numeric_fields parse df [];
               valid_temporal_count =
                 validate_required_fields df [''eventDate'', ''year'', ''month'', ''day'']
           in case generate_coordinates_report parse df warns of
                (coords, warns) \<Rightarrow>
                  (let valid_recorded_by_count =
                         validate_required_fields df [''recordedBy'', ''recordedByID'']
                   in case create_vocabulary_report lower num_str df ''geodeticDatum''
                             (geodetic_datum_vocabulary vocab) of
                        Inl e \<Rightarrow> Inl e
                      | Inr datum \<Rightarrow>
                          (case py_int valid_temporal_count of
                             Inl e \<Rightarrow> Inl e
                           | Inr temporal \<Rightarrow>
                               (case py_int valid_recorded_by_count of
                                  Inl e \<Rightarrow> Inl e
                                | Inr recorded_by \<Rightarrow>
                                    DFValidationReport_init []
                                      (no_kwargs
                                         \<lparr>kw_record_type := Some ''Event'',
                                          kw_record_count := Some (int (nrows df)),
                                          kw_record_error_count := Some error_count,
                                          kw_errors := Some errs,
                                          kw_warnings := Some warns,
                                          kw_coordinates_report := Some (Some coords),
                                          kw_records_with_taxonomy_count := Some 0,
                                          kw_records_with_temporal_count := Some temporal,
                                          kw_records_with_recorded_by_count := Some recorded_by,
                                          kw_column_counts := Some (field_populated_counts df),
                                          kw_vocab_reports := Some [datum]\<rparr>))))))"

section \<open>Properties of the coordinates report\<close>

lemma column_in_columns: "(f \<in> set (columns df)) = (column df f \<noteq> None)"
  by (simp add: columns_def column_def map_of_eq_None_iff)

lemma between_sum_filter:
  "between_sum lo hi (map (to_numeric parse) s) =
     int (length (filter (\<lambda>c. \<exists>r. to_numeric parse c = Some r \<and> lo \<le> r \<and> r \<le> hi) s))"
proof -
  have "between lo hi (to_numeric parse c) =
          (\<exists>r. to_numeric parse c = Some r \<and> lo \<le> r \<and> r \<le> hi)" for c
    by (cases "to_numeric parse c") simp_all
  then show ?thesis
    by (simp add: between_sum_def length_filter_map comp_def)
qed

text \<open>
  C7. When decimalLatitude or decimalLongitude is not a column the report is
  (false, 0, 0) and the warnings are unchanged. When both are columns, and on each
  axis the number of cells that coerce into the inclusive range equals the number of
  non-null cells, the report is (true, 0, 0) and the warnings are unchanged; otherwise
  INVALID_OR_OUT_OF_RANGE_COORDINATES is appended once and the report holds, per axis,
  the non-null count minus the in-range count.
\<close>

theorem generate_coordinates_report_cases:
  fixes parse :: "string \<Rightarrow> real option" and df :: dataframe and ws :: "string list"
  defines "valid lo hi s \<equiv>
     int (length (filter (\<lambda>c. \<exists>r. to_numeric parse c = Some r \<and> lo \<le> r \<and> r \<le> hi) s))"
  defines "nonnull s \<equiv> int (length (filter (\<lambda>c. \<not> isnull c) s))"
  shows "(''decimalLatitude'' \<notin> set (columns df) \<or> ''decimalLongitude'' \<notin> set (columns df) \<longrightarrow>
            generate_coordinates_report parse df ws =
              (\<lparr>has_coordinates_fields = False, invalid_decimal_latitude_count = 0,
                invalid_decimal_longitude_count = 0\<rparr>, ws))
       \<and> (column df ''decimalLatitude'' = Some lat \<and> column df ''decimalLongitude'' = Some lon \<longrightarrow>
            (if valid (- 90) 90 lat = nonnull lat \<and> valid (- 180) 180 lon = nonnull lon
             then generate_coordinates_report parse df ws =
                    (\<lparr>has_coordinates_fields = True, invalid_decimal_latitude_count = 0,
                      invalid_decimal_longitude_count = 0\<rparr>, ws)
             else generate_coordinates_report parse df ws =
                    (\<lparr>has_coordinates_fields = True,
                      invalid_decimal_latitude_count = nonnull lat - valid (- 90) 90 lat,
                      invalid_decimal_longitude_count = nonnull lon - valid (- 180) 180 lon\<rparr>,
                     ws @ [''INVALID_OR_OUT_OF_RANGE_COORDINATES''])))"
proof (intro conjI impI)
  assume "''decimalLatitude'' \<notin> set (columns df) \<or> ''decimalLongitude'' \<notin> set (columns df)"
  then have "column df ''decimalLatitude'' = None \<or> column df ''decimalLongitude'' = None"
    by (simp add: column_in_columns)
  then show "generate_coordinates_report parse df ws =
              (\<lparr>has_coordinates_fields = False, invalid_decimal_latitude_count = 0,
                invalid_decimal_longitude_count = 0\<rparr>, ws)"
    by (auto simp: generate_coordinates_report_def split: option.splits)
next
  assume both: "column df ''decimalLatitude'' = Some lat \<and> column df ''decimalLongitude'' = Some lon"
  have v: "between_sum lo hi (map (to_numeric parse) s) = valid lo hi s" for lo hi s
    by (simp add: between_sum_filter valid_def)
  have n: "count_nonnull s = nonnull s" for s
    by (simp add: count_nonnull_def nonnull_def)
  show "if valid (- 90) 90 lat = nonnull lat \<and> valid (- 180) 180 lon = nonnull lon
        then generate_coordinates_report parse df ws =
               (\<lparr>has_coordinates_fields = True, invalid_decimal_latitude_count = 0,
                 invalid_decimal_longitude_count = 0\<rparr>, ws)
        else generate_coordinates_report parse df ws =
               (\<lparr>has_coordinates_fields = True,
                 invalid_decimal_latitude_count = nonnull lat - valid (- 90) 90 lat,
                 invalid_decimal_longitude_count = nonnull lon - valid (- 180) 180 lon\<rparr>,
                ws @ [''INVALID_OR_OUT_OF_RANGE_COORDINATES''])"
    using both by (simp add: generate_coordinates_report_def Let_def v n)
qed


theorem generate_coordinates_report_scenario:
  "generate_coordinates_report (\<lambda>s. None)
     \<lparr>nrows = 3,
      frame_data =
        [(''occurrenceID'', [Str ''a'', Str ''b'', Str ''c'']),
         (''decimalLatitude'', [Num 45, Num 95, Num (- 10)]),
         (''decimalLongitude'', [Num 100, Num 100, Num 200])]\<rparr> []
   = (\<lparr>has_coordinates_fields = True, invalid_decimal_latitude_count = 1,
        invalid_decimal_longitude_count = 1\<rparr>, [''INVALID_OR_OUT_OF_RANGE_COORDINATES''])
   \<and> generate_coordinates_report (\<lambda>s. None)
     \<lparr>nrows = 1, frame_data = [(''decimalLongitude'', [Num 100])]\<rparr> []
   = (\<lparr>has_coordinates_fields = False, invalid_decimal_latitude_count = 0,
        invalid_decimal_longitude_count = 0\<rparr>, [])"
  using generate_coordinates_report_cases
    [where parse = "\<lambda>s. None" and ws = "[]"
       and lat = "[Num 45, Num 95, Num (- 10)]" and lon = "[Num 100, Num 100, Num 200]"
       and df = "\<lparr>nrows = 3,
                  frame_data =
                    [(''occurrenceID'', [Str ''a'', Str ''b'', Str ''c'']),
                     (''decimalLatitude'', [Num 45, Num 95, Num (- 10)]),
                     (''decimalLongitude'', [Num 100, Num 100, Num 200])]\<rparr>"]
    generate_coordinates_report_cases
    [where parse = "\<lambda>s. None" and ws = "[]"
       and df = "\<lparr>nrows = 1, frame_data = [(''decimalLongitude'', [Num 100])]\<rparr>"]
  by (simp add: column_def columns_def)

section \<open>Properties of the identifier check\<close>

lemma check_id_loop_reaches_alias:
  assumes "column df ''id'' = None"
    and "list_all (\<lambda>f. f \<noteq> id_term \<and> (\<exists>s. column df f = Some s \<and> notnull_all s)) pre"
    and "n \<noteq> 1"
  shows "check_id_loop n id_term df (pre @ id_term # post) errs
           = (errs, Inl (KeyError ''id''))"
  using assms
proof (induction pre)
  case Nil
  then show ?case by (simp add: resolve_id_field_def)
next
  case (Cons f pre)
  then obtain s where s: "column df f = Some s" "notnull_all s" and ne: "f \<noteq> id_term"
    by auto
  have "resolve_id_field id_term df f = Inr (Some s)"
    using s ne by (auto simp: resolve_id_field_def column_in_columns)
  with Cons s show ?case by simp
qed

text \<open>
  C10, as amended. In a frame with no column \<open>id\<close>, a call in which \<open>id_term\<close> is one
  of the candidates, and every candidate before it is another name, a column of the
  frame and populated in every row, raises KeyError and leaves the error list as it
  was. (A candidate before it that is missing or has an unpopulated row ends the call
  first, with its own error code.)
\<close>

theorem check_id_fields_alias_raises:
  assumes "''id'' \<notin> set (columns df)"
    and "list_all (\<lambda>f. f \<noteq> id_term \<and> (\<exists>s. column df f = Some s \<and> notnull_all s)) pre"
  shows "check_id_fields (Some (pre @ id_term # post)) id_term df errs
           = (errs, Inl (KeyError ''id''))"
proof (cases pre)
  case Nil
  with assms(1) show ?thesis
    by (simp add: check_id_fields_def resolve_id_field_def column_in_columns)
next
  case (Cons f pre')
  have "column df ''id'' = None"
    using assms(1) by (simp add: column_in_columns)
  then have "check_id_loop (length (pre @ id_term # post)) id_term df (pre @ id_term # post) errs
               = (errs, Inl (KeyError ''id''))"
    using assms(2) Cons by (intro check_id_loop_reaches_alias) simp_all
  then show ?thesis
    by (simp add: check_id_fields_def)
qed

theorem check_id_fields_alias_raises_witness:
  "check_id_fields (Some [''catalogNumber'', ''occurrenceID'', ''recordNumber'']) ''occurrenceID''
     \<lparr>nrows = 2,
      frame_data = [(''catalogNumber'', [Str ''c1'', Str ''c1'']),
                    (''occurrenceID'', [Str ''a'', Str ''b''])]\<rparr> []
   = ([], Inl (KeyError ''id''))"
  using check_id_fields_alias_raises
    [where pre = "[''catalogNumber'']" and id_term = "''occurrenceID''"
       and post = "[''recordNumber'']" and errs = "[]"
       and df = "\<lparr>nrows = 2,
                  frame_data = [(''catalogNumber'', [Str ''c1'', Str ''c1'']),
                                (''occurrenceID'', [Str ''a'', Str ''b''])]\<rparr>"]
  by (simp add: columns_def column_def notnull_all_def)

text \<open>
  C10, as stated, fails: with no column \<open>id\<close> and \<open>id_term\<close> among the candidates,
  a candidate that comes first and is not a column ends the call with
  MISSING_ID_FIELD and the row count; nothing is raised.
\<close>

theorem check_id_fields_alias_not_reached:
  "''id'' \<notin> set (columns \<lparr>nrows = 1, frame_data = [(''occurrenceID'', [Str ''a''])]\<rparr>)
   \<and> ''occurrenceID'' \<in> set [''catalogNumber'', ''occurrenceID'']
   \<and> check_id_fields (Some [''catalogNumber'', ''occurrenceID'']) ''occurrenceID''
        \<lparr>nrows = 1, frame_data = [(''occurrenceID'', [Str ''a''])]\<rparr> []
      = ([''MISSING_ID_FIELD''], Inr 1)"
  by (simp add: check_id_fields_def resolve_id_field_def columns_def column_def)

text \<open>
  C6 at a frame whose only candidate is the configured term and which has no column
  \<open>id\<close>: the resolved column is absent, and the call raises KeyError with no error
  appended, where the chain described appends MISSING_ID_FIELD and returns the row
  count 2.
\<close>

theorem check_id_fields_missing_alias_column:
  "check_id_fields (Some [''occurrenceID'']) ''occurrenceID''
     \<lparr>nrows = 2, frame_data = [(''occurrenceID'', [Str ''a'', Str ''b''])]\<rparr> []
   = ([], Inl (KeyError ''id''))"
  by (simp add: check_id_fields_def resolve_id_field_def column_def)

text \<open>
  Away from the alias, the chain is as the candidates' order gives it: the first
  candidate that is not a column ends the call with MISSING_ID_FIELD and the row
  count, the first with an unpopulated row with MISSING_ID_FIELD_VALUES and the number
  of such rows, a single populated candidate with repeated values with
  DUPLICATE_ID_FIELD_VALUES and the number of rows that repeat an earlier one, and a
  call in which every candidate passes returns 0.
\<close>

lemma check_id_fields_no_candidates:
  "check_id_fields None id_term df errs = (errs, Inr 0)"
  "check_id_fields (Some []) id_term df errs = (errs, Inr 0)"
  by (simp_all add: check_id_fields_def)

lemma check_id_loop_passing_prefix:
  assumes "list_all (\<lambda>f. f \<noteq> id_term \<and> (\<exists>s. column df f = Some s \<and> notnull_all s)) pre"
    and "n \<noteq> 1"
  shows "check_id_loop n id_term df (pre @ rest) errs = check_id_loop n id_term df rest errs"
  using assms
proof (induction pre)
  case Nil
  then show ?case by simp
next
  case (Cons f pre)
  then obtain s where s: "column df f = Some s" "notnull_all s" and ne: "f \<noteq> id_term"
    by auto
  have "resolve_id_field id_term df f = Inr (Some s)"
    using s ne by (auto simp: resolve_id_field_def column_in_columns)
  with Cons s show ?case by simp
qed

lemma check_id_fields_first_absent:
  assumes "list_all (\<lambda>f. f \<noteq> id_term \<and> (\<exists>s. column df f = Some s \<and> notnull_all s)) pre"
    and "f \<noteq> id_term" and "f \<notin> set (columns df)"
  shows "check_id_fields (Some (pre @ f # post)) id_term df errs
           = (errs @ [''MISSING_ID_FIELD''], Inr (int (nrows df)))"
proof -
  have step: "check_id_loop n id_term df (f # post) errs
                = (errs @ [''MISSING_ID_FIELD''], Inr (int (nrows df)))" for n
    using assms(2,3) by (simp add: resolve_id_field_def)
  show ?thesis
  proof (cases pre)
    case Nil
    then show ?thesis by (simp add: check_id_fields_def step del: check_id_loop.simps)
  next
    case (Cons g pre')
    then have "length (pre @ f # post) \<noteq> 1" by simp
    from check_id_loop_passing_prefix [OF assms(1) this, of "f # post" errs]
    show ?thesis by (simp add: check_id_fields_def step del: check_id_loop.simps)
  qed
qed

lemma check_id_fields_first_unpopulated:
  assumes "list_all (\<lambda>f. f \<noteq> id_term \<and> (\<exists>s. column df f = Some s \<and> notnull_all s)) pre"
    and "f \<noteq> id_term" and "column df f = Some s" and "\<not> notnull_all s"
  shows "check_id_fields (Some (pre @ f # post)) id_term df errs
           = (errs @ [''MISSING_ID_FIELD_VALUES''], Inr (isna_sum s))"
proof -
  have "resolve_id_field id_term df f = Inr (Some s)"
    using assms(2,3) by (auto simp: resolve_id_field_def column_in_columns)
  then have step: "check_id_loop n id_term df (f # post) errs
                = (errs @ [''MISSING_ID_FIELD_VALUES''], Inr (isna_sum s))" for n
    using assms(4) by simp
  show ?thesis
  proof (cases pre)
    case Nil
    then show ?thesis by (simp add: check_id_fields_def step del: check_id_loop.simps)
  next
    case (Cons g pre')
    then have "length (pre @ f # post) \<noteq> 1" by simp
    from check_id_loop_passing_prefix [OF assms(1) this, of "f # post" errs]
    show ?thesis by (simp add: check_id_fields_def step del: check_id_loop.simps)
  qed
qed

lemma check_id_fields_single_duplicates:
  assumes "f \<noteq> id_term" and "column df f = Some s" and "notnull_all s"
  shows "check_id_fields (Some [f]) id_term df errs
           = (if nunique s = int (nrows df) then (errs, Inr 0)
              else (errs @ [''DUPLICATE_ID_FIELD_VALUES''], Inr (duplicated_sum s)))"
proof -
  have "resolve_id_field id_term df f = Inr (Some s)"
    using assms(1,2) by (auto simp: resolve_id_field_def column_in_columns)
  then show ?thesis
    using assms(3) by (simp add: check_id_fields_def)
qed

lemma check_id_fields_all_pass:
  assumes "list_all (\<lambda>f. f \<noteq> id_term \<and> (\<exists>s. column df f = Some s \<and> notnull_all s)) fs"
    and "length fs \<noteq> 1"
  shows "check_id_fields (Some fs) id_term df errs = (errs, Inr 0)"
  using check_id_loop_passing_prefix [OF assms, of "[]" errs]
  by (simp add: check_id_fields_def)

lemma duplicated_count:
  "int (length (filter (\<lambda>b. b) (duplicated seen s))) = int (length s) - int (card (set s - set seen))"
proof (induction s arbitrary: seen)
  case Nil
  then show ?case by simp
next
  case (Cons c s)
  note IH = Cons [of "c # seen"]
  show ?case
  proof (cases "c \<in> set seen")
    case True
    then have eq: "set (c # s) - set seen = set s - set (c # seen)" by auto
    have "duplicated seen (c # s) = True # duplicated (c # seen) s"
      using True by simp
    then have "int (length (filter (\<lambda>b. b) (duplicated seen (c # s))))
                 = 1 + int (length (filter (\<lambda>b. b) (duplicated (c # seen) s)))"
      by simp
    also have "\<dots> = 1 + (int (length s) - int (card (set s - set (c # seen))))"
      by (simp only: IH)
    finally show ?thesis by (simp only: eq) simp
  next
    case False
    then have eq: "set (c # s) - set seen = insert c (set s - set (c # seen))" by auto
    have notin: "c \<notin> set s - set (c # seen)" by simp
    have fin: "finite (set s - set (c # seen))" by simp
    have card: "card (set (c # s) - set seen) = Suc (card (set s - set (c # seen)))"
      by (simp only: eq card_insert_disjoint [OF fin notin])
    have "duplicated seen (c # s) = False # duplicated (c # seen) s"
      using False by simp
    then have "int (length (filter (\<lambda>b. b) (duplicated seen (c # s))))
                 = int (length (filter (\<lambda>b. b) (duplicated (c # seen) s)))"
      by simp
    also have "\<dots> = int (length s) - int (card (set s - set (c # seen)))"
      by (simp only: IH)
    finally show ?thesis by (simp only: card) simp
  qed
qed

lemma duplicated_sum_eq: "duplicated_sum s = int (length s) - int (card (set s))"
  using duplicated_count [of "[]" s] by (simp add: duplicated_sum_def)

section \<open>Properties of the numeric check\<close>

lemma is_numeric_or_empty_all: "list_all is_numeric_or_empty xs"
proof -
  have "is_numeric_or_empty x" for x
    by (cases x) (simp_all add: is_numeric_or_empty_def)
  then show ?thesis by (simp add: list_all_iff)
qed

lemma numeric_fields_loop_id: "numeric_fields_loop parse df fs ws = ws"
  by (induction fs arbitrary: ws) (simp_all add: is_numeric_or_empty_all split: option.splits)

text \<open>
  C2. The test of \<^verbatim>\<open>validate_numeric_fields\<close> runs on the coerced series, where a
  cell that did not coerce has become NaN and passes as empty: no field fails, and
  the warnings come back as they went in, whatever the frame holds. In particular a
  column \<open>year\<close> holding the string \<open>abc\<close> adds no NON_NUMERIC_VALUES_IN_YEAR.
\<close>

theorem validate_numeric_fields_never_warns:
  "validate_numeric_fields parse df ws = ws"
  by (simp add: validate_numeric_fields_def numeric_fields_loop_id)


section \<open>Properties of the vocabulary report\<close>

lemma filter_dropna: "(\<And>c. isnull c \<Longrightarrow> \<not> P c) \<Longrightarrow> filter P (dropna s) = filter P s"
  by (induction s) (auto simp: dropna_def)

lemma isin_str_lower_iff:
  "isin (map lower vocab) (str_lower lower c) = (\<exists>v. c = Str v \<and> lower v \<in> lower ` set vocab)"
  by (cases c) auto

lemma samples_props:
  fixes xs :: "string list"
  defines "ys \<equiv> remove1 ''nan'' (take 10 (numpy_unique xs))"
  shows "length ys \<le> 10" "distinct ys" "''nan'' \<notin> set ys" "set ys \<subseteq> set xs"
proof -
  have d: "distinct (take 10 (numpy_unique xs))"
    by (simp add: numpy_unique_def)
  show "length ys \<le> 10"
    unfolding ys_def by (auto simp: length_remove1)
  show "distinct ys" unfolding ys_def using d by simp
  show "''nan'' \<notin> set ys" unfolding ys_def using d by simp
  have "set ys \<subseteq> set (take 10 (numpy_unique xs))"
    unfolding ys_def by (rule set_remove1_subset)
  also have "\<dots> \<subseteq> set (numpy_unique xs)" by (rule set_take_subset)
  also have "\<dots> = set xs" by (simp add: numpy_unique_def)
  finally show "set ys \<subseteq> set xs" .
qed


lemma create_vocabulary_report_absent:
  "column df f = None \<Longrightarrow>
     create_vocabulary_report lower num_str df f vocab =
       Inr \<lparr>field = f, has_field = False, recognised_count = 0, unrecognised_count = 0,
            non_matching_values = []\<rparr>"
  by (simp add: create_vocabulary_report_def)

lemma is_str_notnull: "is_str c \<Longrightarrow> \<not> isnull c"
  by (cases c) simp_all

lemma list_ex_dropna: "list_ex is_str (dropna s) = list_ex is_str s"
  by (induction s) (auto simp: dropna_def is_str_notnull)

lemma dropna_Nil: "(dropna s = []) = list_all isnull s"
  by (induction s) (auto simp: dropna_def)

lemma create_vocabulary_report_present:
  fixes vocab :: "string list" and s :: "cell list" and lower :: "string \<Rightarrow> string"
  defines "matches c \<equiv> (\<exists>v. c = Str v \<and> lower v \<in> lower ` set vocab)"
  assumes col: "column df f = Some s"
    and dtype: "list_ex is_str s \<or> list_all isnull s"
  shows "\<exists>r. create_vocabulary_report lower num_str df f vocab = Inr r
           \<and> field r = f \<and> has_field r
           \<and> recognised_count r = int (length (filter matches s))
           \<and> unrecognised_count r = int (nrows df) - (isna_sum s + recognised_count r)
           \<and> length (non_matching_values r) \<le> 10
           \<and> distinct (non_matching_values r)
           \<and> ''nan'' \<notin> set (non_matching_values r)
           \<and> set (non_matching_values r) \<subseteq> astype_str num_str ` {c \<in> set s. \<not> matches c}"
proof (cases "dropna s = []")
  case True
  then have "list_all isnull s" by (simp add: dropna_Nil)
  then have "filter matches s = []"
    by (auto simp: matches_def list_all_iff filter_empty_conv)
  with True col show ?thesis
    by (simp add: create_vocabulary_report_def)
next
  case False
  then have "list_ex is_str s" using dtype by (simp add: dropna_Nil)
  then have acc: "str_accessor (dropna s) = Inr (dropna s)"
    by (simp add: str_accessor_def list_ex_dropna)
  define vl where "vl = map lower vocab"
  have m: "isin vl (str_lower lower c) = matches c" for c
    unfolding vl_def matches_def by (rule isin_str_lower_iff)
  have cnt: "filter (isin vl) (map (str_lower lower) (dropna s)) = map (str_lower lower) (filter matches s)"
  proof -
    have "filter (isin vl) (map (str_lower lower) (dropna s))
            = map (str_lower lower) (filter (\<lambda>c. isin vl (str_lower lower c)) (dropna s))"
      by (simp add: filter_map comp_def)
    also have "filter (\<lambda>c. isin vl (str_lower lower c)) (dropna s) = filter (\<lambda>c. isin vl (str_lower lower c)) s"
      by (rule filter_dropna) (case_tac c, simp_all)
    finally show ?thesis by (simp add: m)
  qed
  define ys where
    "ys = remove1 ''nan'' (take 10 (numpy_unique (map (astype_str num_str) (filter (\<lambda>c. \<not> matches c) s))))"
  have res: "create_vocabulary_report lower num_str df f vocab =
          Inr \<lparr>field = f, has_field = True,
               recognised_count = int (length (filter matches s)),
               unrecognised_count = int (nrows df) - (isna_sum s + int (length (filter matches s))),
               non_matching_values = ys\<rparr>"
    using False col acc cnt
    by (simp add: create_vocabulary_report_def Let_def vl_def[symmetric] m ys_def)
  have "set ys \<subseteq> set (map (astype_str num_str) (filter (\<lambda>c. \<not> matches c) s))"
    unfolding ys_def by (rule samples_props)
  then have sub: "set ys \<subseteq> astype_str num_str ` {c \<in> set s. \<not> matches c}"
    by simp
  have "length ys \<le> 10" "distinct ys" "''nan'' \<notin> set ys"
    unfolding ys_def by (rule samples_props)+
  with res sub show ?thesis by simp
qed

lemma isna_partition: "isna_sum s + count_nonnull s = int (length s)"
  by (induction s) (auto simp: isna_sum_def count_nonnull_def)


lemma matching_le_populated:
  "int (length (filter (\<lambda>c. \<exists>v. c = Str v \<and> P v) s)) \<le> count_nonnull s"
proof -
  have "length (filter (\<lambda>c. \<exists>v. c = Str v \<and> P v) s) \<le> length (filter (\<lambda>c. \<not> isnull c) s)"
    by (induction s) auto
  then show ?thesis by (simp add: count_nonnull_def)
qed

text \<open>
  In a well-formed frame the unrecognised count of a report is not negative.
\<close>

lemma create_vocabulary_report_unrecognised_nonneg:
  assumes wf: "wf_dataframe df"
    and r: "create_vocabulary_report lower num_str df f vocab = Inr r"
  shows "0 \<le> unrecognised_count r"
proof (cases "column df f")
  case None
  with r show ?thesis by (auto simp: create_vocabulary_report_def)
next
  case (Some s)
  then have "(f, s) \<in> set (frame_data df)"
    by (simp add: column_def map_of_SomeD)
  with wf have len: "length s = nrows df"
    by (auto simp: wf_dataframe_def list_all_iff)
  show ?thesis
  proof (cases "list_ex is_str s \<or> list_all isnull s")
    case True
    from create_vocabulary_report_present [OF Some True, of lower num_str vocab] r
    have rc: "recognised_count r
                = int (length (filter (\<lambda>c. \<exists>v. c = Str v \<and> lower v \<in> lower ` set vocab) s))"
      and uc: "unrecognised_count r = int (nrows df) - (isna_sum s + recognised_count r)"
      by auto
    have "recognised_count r \<le> count_nonnull s"
      unfolding rc by (rule matching_le_populated)
    with isna_partition [of s] len uc show ?thesis by simp
  next
    case False
    then have "dropna s \<noteq> []" "\<not> list_ex is_str (dropna s)"
      by (simp_all add: dropna_Nil list_ex_dropna)
    with Some r show ?thesis
      by (simp add: create_vocabulary_report_def str_accessor_def)
  qed
qed

text \<open>
  What the report holds when the call returns. When the field is not a column the
  report is (field, false, 0, 0, []). When it is a column that holds a string, or no
  populated cell at all, the report has \<open>has_field\<close> true; \<open>recognised_count\<close> is the
  number of cells that are strings whose lower-case form is the lower-case form of a
  vocabulary entry; \<open>unrecognised_count\<close> is the row count minus the sum of the
  unpopulated and the recognised count, so the three counts add up to the row count;
  and the samples are at most 10, distinct, never \<^verbatim>\<open>nan\<close>, each the printed form of a
  cell that is not recognised.
\<close>

lemma create_vocabulary_report_counts:
  "(column df f = None \<longrightarrow>
      create_vocabulary_report lower num_str df f vocab =
        Inr \<lparr>field = f, has_field = False, recognised_count = 0, unrecognised_count = 0,
             non_matching_values = []\<rparr>)
   \<and> (column df f = Some s \<and> (list_ex is_str s \<or> list_all isnull s) \<longrightarrow>
        (\<exists>r. create_vocabulary_report lower num_str df f vocab = Inr r
           \<and> field r = f \<and> has_field r
           \<and> recognised_count r
               = int (length (filter (\<lambda>c. \<exists>v. c = Str v \<and> lower v \<in> lower ` set vocab) s))
           \<and> unrecognised_count r = int (nrows df) - (isna_sum s + recognised_count r)
           \<and> recognised_count r + unrecognised_count r + isna_sum s = int (nrows df)
           \<and> length (non_matching_values r) \<le> 10
           \<and> distinct (non_matching_values r)
           \<and> ''nan'' \<notin> set (non_matching_values r)
           \<and> set (non_matching_values r)
               \<subseteq> astype_str num_str `
                   {c \<in> set s. \<not> (\<exists>v. c = Str v \<and> lower v \<in> lower ` set vocab)}))"
proof (intro conjI impI)
  assume "column df f = None"
  then show "create_vocabulary_report lower num_str df f vocab =
        Inr \<lparr>field = f, has_field = False, recognised_count = 0, unrecognised_count = 0,
             non_matching_values = []\<rparr>"
    by (rule create_vocabulary_report_absent)
next
  assume a: "column df f = Some s \<and> (list_ex is_str s \<or> list_all isnull s)"
  from create_vocabulary_report_present [of df f s lower num_str vocab] a
  obtain r where r: "create_vocabulary_report lower num_str df f vocab = Inr r"
      "field r = f" "has_field r"
      "recognised_count r
         = int (length (filter (\<lambda>c. \<exists>v. c = Str v \<and> lower v \<in> lower ` set vocab) s))"
      "unrecognised_count r = int (nrows df) - (isna_sum s + recognised_count r)"
      "length (non_matching_values r) \<le> 10"
      "distinct (non_matching_values r)"
      "''nan'' \<notin> set (non_matching_values r)"
      "set (non_matching_values r)
         \<subseteq> astype_str num_str `
             {c \<in> set s. \<not> (\<exists>v. c = Str v \<and> lower v \<in> lower ` set vocab)}"
    by blast
  have "recognised_count r + unrecognised_count r + isna_sum s = int (nrows df)"
    using r(5) by simp
  with r show "\<exists>r. create_vocabulary_report lower num_str df f vocab = Inr r
           \<and> field r = f \<and> has_field r
           \<and> recognised_count r
               = int (length (filter (\<lambda>c. \<exists>v. c = Str v \<and> lower v \<in> lower ` set vocab) s))
           \<and> unrecognised_count r = int (nrows df) - (isna_sum s + recognised_count r)
           \<and> recognised_count r + unrecognised_count r + isna_sum s = int (nrows df)
           \<and> length (non_matching_values r) \<le> 10
           \<and> distinct (non_matching_values r)
           \<and> ''nan'' \<notin> set (non_matching_values r)
           \<and> set (non_matching_values r)
               \<subseteq> astype_str num_str `
                   {c \<in> set s. \<not> (\<exists>v. c = Str v \<and> lower v \<in> lower ` set vocab)}"
    by blast
qed

text \<open>The example of the spec, with the null cell stored as NaN.\<close>

lemma create_vocabulary_report_scenario:
  "column \<lparr>nrows = 4,
           frame_data = [(''basisOfRecord'',
                          [Str ''Observation'', Str ''observation'', Str ''Bogus'', Null])]\<rparr>
     ''basisOfRecord''
     = Some [Str ''Observation'', Str ''observation'', Str ''Bogus'', Null]
   \<and> list_ex is_str [Str ''Observation'', Str ''observation'', Str ''Bogus'', Null]
   \<and> create_vocabulary_report ascii_lower (\<lambda>r. ''0'')
        \<lparr>nrows = 4,
         frame_data = [(''basisOfRecord'',
                        [Str ''Observation'', Str ''observation'', Str ''Bogus'', Null])]\<rparr>
        ''basisOfRecord'' [''Observation'', ''PreservedSpecimen'']
       = Inr \<lparr>field = ''basisOfRecord'', has_field = True, recognised_count = 2,
              unrecognised_count = 1, non_matching_values = [''Bogus'']\<rparr>
   \<and> create_vocabulary_report ascii_lower (\<lambda>r. ''0'')
        \<lparr>nrows = 4, frame_data = []\<rparr> ''basisOfRecord'' [''Observation'', ''PreservedSpecimen'']
       = Inr \<lparr>field = ''basisOfRecord'', has_field = False, recognised_count = 0,
              unrecognised_count = 0, non_matching_values = []\<rparr>"
proof -
  let ?s = "[Str ''Observation'', Str ''observation'', Str ''Bogus'', Null]"
  let ?df = "\<lparr>nrows = 4, frame_data = [(''basisOfRecord'', ?s)]\<rparr>"
  let ?v = "[''Observation'', ''PreservedSpecimen'']"
  have c: "column ?df ''basisOfRecord'' = Some ?s"
    by (simp add: column_def)
  have h: "column ?df ''basisOfRecord'' = Some ?s \<and> (list_ex is_str ?s \<or> list_all isnull ?s)"
    using c by simp
  have n: "column \<lparr>nrows = 4, frame_data = []\<rparr> ''basisOfRecord'' = None"
    by (simp add: column_def)
  have absent: "create_vocabulary_report ascii_lower (\<lambda>r. ''0'') \<lparr>nrows = 4, frame_data = []\<rparr> ''basisOfRecord'' ?v
       = Inr \<lparr>field = ''basisOfRecord'', has_field = False, recognised_count = 0,
              unrecognised_count = 0, non_matching_values = []\<rparr>"
    using create_vocabulary_report_counts [THEN conjunct1, rule_format, OF n] .
  obtain r where r: "create_vocabulary_report ascii_lower (\<lambda>r. ''0'') ?df ''basisOfRecord'' ?v = Inr r"
      and "has_field r"
    using create_vocabulary_report_counts [THEN conjunct2, rule_format, OF h] by blast
  have "create_vocabulary_report ascii_lower (\<lambda>r. ''0'') ?df ''basisOfRecord'' ?v
       = Inr \<lparr>field = ''basisOfRecord'', has_field = True, recognised_count = 2,
              unrecognised_count = 1, non_matching_values = [''Bogus'']\<rparr>"
    by (simp add: create_vocabulary_report_def column_def isna_sum_def dropna_def str_accessor_def
        ascii_lower_def lower_char_def numpy_unique_def)
  with r c absent show ?thesis by simp
qed

text \<open>
  C8 at two frames in which the field is a column. On a column that holds numbers only,
  the \<^verbatim>\<open>.str\<close> accessor of line 376 raises AttributeError, outside the \<^verbatim>\<open>try\<close> of
  lines 386 to 393, and no report is returned. On the example of the claim with the
  null cell stored as Python's \<^verbatim>\<open>None\<close>, the counts are 2 and 1, and the samples are
  Bogus and None: lines 389 and 390 remove the string \<^verbatim>\<open>nan\<close> only.
\<close>

theorem create_vocabulary_report_failing_inputs:
  "create_vocabulary_report lower num_str
     \<lparr>nrows = 2, frame_data = [(''basisOfRecord'', [Num 1, Num 2])]\<rparr>
     ''basisOfRecord'' [''Observation'', ''PreservedSpecimen'']
    = Inl (AttributeError ''Can only use .str accessor with string values'')
   \<and> create_vocabulary_report ascii_lower num_str
        \<lparr>nrows = 4,
         frame_data = [(''basisOfRecord'',
                        [Str ''Observation'', Str ''observation'', Str ''Bogus'', PyNone])]\<rparr>
        ''basisOfRecord'' [''Observation'', ''PreservedSpecimen'']
       = Inr \<lparr>field = ''basisOfRecord'', has_field = True, recognised_count = 2,
              unrecognised_count = 1, non_matching_values = [''Bogus'', ''None'']\<rparr>"
  by (simp add: create_vocabulary_report_def column_def isna_sum_def dropna_def str_accessor_def
        ascii_lower_def lower_char_def numpy_unique_def)

section \<open>Properties of the entry points\<close>

lemma init_taxonomy_report_missing:
  "kw_taxonomy_report kw = None \<Longrightarrow> isl (DFValidationReport_init d kw)"
  by (simp add: DFValidationReport_init_def DFValidationReport_missing_def)

lemma init_recorded_by_missing:
  "kw_records_with_recorded_by_count kw = None \<Longrightarrow> isl (DFValidationReport_init d kw)"
  by (simp add: DFValidationReport_init_def DFValidationReport_missing_def)

lemma validate_event_dataframe_isl: "isl (validate_event_dataframe parse lower num_str vocab df)"
  by (simp add: validate_event_dataframe_def Let_def init_taxonomy_report_missing no_kwargs_def
        split: prod.splits sum.splits)

lemma validate_occurrence_dataframe_isl:
  "isl (validate_occurrence_dataframe parse lower num_str vocab svc df id_fields id_term)"
  by (simp add: validate_occurrence_dataframe_def Let_def init_recorded_by_missing no_kwargs_def
        split: prod.splits sum.splits)

lemma validate_event_dataframe_example:
  "validate_event_dataframe parse lower num_str vocab
        \<lparr>nrows = 2, frame_data = [(''eventID'', [Str ''e1'', Str ''e2''])]\<rparr>
      = Inl (TypeError_missing [''taxonomy_report''])"
  by (simp add: validate_event_dataframe_def check_id_fields_def resolve_id_field_def
        columns_def column_def notnull_all_def nunique_def dropna_def
        validate_numeric_fields_never_warns validate_required_fields_def
        generate_coordinates_report_def create_vocabulary_report_def
        DFValidationReport_init_def DFValidationReport_missing_def no_kwargs_def)

lemma validate_occurrence_dataframe_example:
  "validate_occurrence_dataframe parse lower num_str vocab svc
        \<lparr>nrows = 2, frame_data = [(''occurrenceID'', [Str ''o1'', Str ''o2''])]\<rparr>
        (Some [''occurrenceID'']) []
      = Inl (TypeError_missing [''records_with_taxonomy_count'', ''records_with_recorded_by_count''])"
  by (simp add: validate_occurrence_dataframe_def check_id_fields_def resolve_id_field_def
        columns_def column_def notnull_all_def nunique_def dropna_def
        validate_numeric_fields_never_warns occurrence_taxonomy_def Let_def
        generate_coordinates_report_def create_datetime_report_def
        occurrence_vocabs_reports_def list_equals_label_def create_vocabulary_report_def
        DFValidationReport_init_def DFValidationReport_missing_def no_kwargs_def)

section \<open>Properties of the required-column checks\<close>

text \<open>
  C3. In a frame with no column of the spatial vocabulary, the guard of line 83 is
  false, and the check of the other required columns leaves the list of missing
  columns as it found it: neither the columns of \<open>required_columns_other\<close> that the
  frame lacks nor the two entries for decimalLatitude and decimalLongitude are added.
  The frame that holds occurrenceID alone, with basisOfRecord and eventDate required,
  ends with an empty list, which makes \<open>all_required_columns_present\<close> true.
\<close>

theorem occurrence_required_columns_no_spatial:
  assumes "\<not> list_ex (\<lambda>v. v \<in> set (required_columns_spatial_vocab vocab)) (columns df)"
  shows "occurrence_required_columns vocab df missing = missing"
  using assms
  by (simp add: occurrence_required_columns_def type_is_not_bool_def Let_def)

theorem occurrence_required_columns_no_spatial_witness:
  "\<not> list_ex (\<lambda>v. v \<in> set [''decimalLatitude'', ''decimalLongitude'', ''geodeticDatum''])
       (columns \<lparr>nrows = 1, frame_data = [(''occurrenceID'', [Str ''o1''])]\<rparr>)
   \<and> difference [''basisOfRecord'', ''eventDate'']
        \<lparr>nrows = 1, frame_data = [(''occurrenceID'', [Str ''o1''])]\<rparr>
       = [''basisOfRecord'', ''eventDate'']
   \<and> occurrence_identifier_columns
        \<lparr>nrows = 1, frame_data = [(''occurrenceID'', [Str ''o1''])]\<rparr>
        (occurrence_required_columns
           \<lparr>basis_of_record_vocabulary = [], geodetic_datum_vocabulary = [],
            taxon_terms_Australia = [],
            required_columns_spatial_vocab =
              [''decimalLatitude'', ''decimalLongitude'', ''geodeticDatum''],
            required_columns_other = [''basisOfRecord'', ''eventDate''],
            required_taxonomy_columns = [''scientificName'']\<rparr>
           \<lparr>nrows = 1, frame_data = [(''occurrenceID'', [Str ''o1''])]\<rparr> [])
       = []"
  using occurrence_required_columns_no_spatial
    [where missing = "[]"
       and df = "\<lparr>nrows = 1, frame_data = [(''occurrenceID'', [Str ''o1''])]\<rparr>"
       and vocab = "\<lparr>basis_of_record_vocabulary = [], geodetic_datum_vocabulary = [],
            taxon_terms_Australia = [],
            required_columns_spatial_vocab =
              [''decimalLatitude'', ''decimalLongitude'', ''geodeticDatum''],
            required_columns_other = [''basisOfRecord'', ''eventDate''],
            required_taxonomy_columns = [''scientificName'']\<rparr>"]
  by (simp add: columns_def difference_def occurrence_identifier_columns_def issuperset_def)

section \<open>Properties of the taxonomy report\<close>

lemma resolve_names_all_recognised:
  "list_all (\<lambda>c. list_ex (entry_matches c) rj) names \<Longrightarrow>
     resolve_names terms svc n b rj names st = Inr st"
  by (induction names) (simp_all add: resolve_name_def)

lemma TaxonReport_call_unexpected:
  "TaxonReport_init d1 d2
     \<lparr>kw_has_invalid_taxa = h, kw_unrecognised_taxa = u, kw_suggested_names = g,
      kw_unknown = [''valid_taxon_count'']\<rparr> = Inl (TypeError_unexpected ''valid_taxon_count'')"
  by (simp add: TaxonReport_init_def)

lemma create_taxonomy_report_isl:
  "column df ''scientificName'' \<noteq> None \<Longrightarrow> isl (create_taxonomy_report vocab svc df n b)"
  by (simp add: create_taxonomy_report_def Let_def TaxonReport_call_unexpected
        split: option.splits sum.splits)

text \<open>
  C4. When the frame has the column scientificName and the batch answer recognises
  every name, \<^verbatim>\<open>create_taxonomy_report\<close> computes the count and then calls the
  constructor with the keyword \<^verbatim>\<open>valid_taxon_count\<close>, which \<^verbatim>\<open>TaxonReport.__init__\<close>
  does not take: the call raises TypeError and no report is returned. (When none of the
  required taxonomy columns is a column, the count itself raises first:
  \<^verbatim>\<open>validate_required_fields\<close> has returned the integer 0, which has no \<^verbatim>\<open>items\<close>.)
\<close>

theorem create_taxonomy_report_recognised_raises:
  assumes col: "column df ''scientificName'' = Some names"
    and batch: "searchAllByClassification svc (remdups names) = Some rj"
    and rec: "list_all (\<lambda>c. list_ex (entry_matches c) rj) names"
  shows "create_taxonomy_report vocab svc df n b =
           Inl (if list_ex (\<lambda>f. f \<in> set (columns df)) (required_taxonomy_columns vocab)
                then TypeError_unexpected ''valid_taxon_count''
                else AttributeError ''items'')"
proof -
  have "list_all (\<lambda>c. list_ex (entry_matches c) rj) (remdups names)"
    using rec by (simp add: list_all_iff)
  then have loop: "resolve_names terms svc n b rj (remdups names) st = Inr st" for terms st
    by (rule resolve_names_all_recognised)
  show ?thesis
    using col batch
    by (simp add: create_taxonomy_report_def Let_def loop valid_taxon_count_def
          validate_required_fields_def TaxonReport_call_unexpected)
qed

theorem create_taxonomy_report_recognised_raises_witness:
  "create_taxonomy_report
     \<lparr>basis_of_record_vocabulary = [], geodetic_datum_vocabulary = [],
      taxon_terms_Australia = [''kingdom'', ''genus''],
      required_columns_spatial_vocab = [], required_columns_other = [],
      required_taxonomy_columns = [''scientificName'', ''vernacularName'', ''genus'']\<rparr>
     \<lparr>searchAllByClassification =
        (\<lambda>names. Some (map (\<lambda>c. case c of Str s \<Rightarrow> Some s | _ \<Rightarrow> None) names)),
      autocomplete = (\<lambda>q m s. Some []),
      search = (\<lambda>q. Some \<lparr>sr_success = False, sr_scientificName = [], sr_rank = None,
                           sr_fields = []\<rparr>)\<rparr>
     \<lparr>nrows = 2,
      frame_data = [(''scientificName'', [Str ''Acacia dealbata'', Str ''Acacia dealbata'']),
                    (''genus'', [Str ''Acacia'', Null])]\<rparr> 5 True
   = Inl (TypeError_unexpected ''valid_taxon_count'')"
  using create_taxonomy_report_recognised_raises
    [where names = "[Str ''Acacia dealbata'', Str ''Acacia dealbata'']" and n = 5 and b = True
       and rj = "[Some ''Acacia dealbata'']"
       and vocab = "\<lparr>basis_of_record_vocabulary = [], geodetic_datum_vocabulary = [],
                      taxon_terms_Australia = [''kingdom'', ''genus''],
                      required_columns_spatial_vocab = [], required_columns_other = [],
                      required_taxonomy_columns = [''scientificName'', ''vernacularName'', ''genus'']\<rparr>"
       and svc = "\<lparr>searchAllByClassification =
                      (\<lambda>names. Some (map (\<lambda>c. case c of Str s \<Rightarrow> Some s | _ \<Rightarrow> None) names)),
                    autocomplete = (\<lambda>q m s. Some []),
                    search = (\<lambda>q. Some \<lparr>sr_success = False, sr_scientificName = [], sr_rank = None,
                                         sr_fields = []\<rparr>)\<rparr>"
       and df = "\<lparr>nrows = 2,
                   frame_data = [(''scientificName'', [Str ''Acacia dealbata'', Str ''Acacia dealbata'']),
                                 (''genus'', [Str ''Acacia'', Null])]\<rparr>"]
  by (simp add: column_def columns_def)

lemma min_populated_full:
  "list_all (\<lambda>e. n \<le> snd e) valid_data \<Longrightarrow> min_populated n valid_data v = v"
  by (induction valid_data arbitrary: v) auto

text \<open>
  The count starts from 999: in a frame of more than 999 rows whose required taxonomy
  columns are populated in every row, the count is 999 and not the row count.
\<close>

lemma valid_taxon_count_sentinel:
  assumes "validate_required_fields df (required_taxonomy_columns vocab) = PerField valid_data"
    and "list_all (\<lambda>e. int (nrows df) \<le> snd e) valid_data"
    and "999 < nrows df"
  shows "valid_taxon_count vocab df False = Inr 999"
  using assms by (simp add: valid_taxon_count_def min_populated_full)















section \<open>The entry points as a whole\<close>

text \<open>
  C1. Neither entry point returns a report, whatever the frame: every run that reaches
  the last statement calls \<^verbatim>\<open>DFValidationReport\<close> without a parameter that has no
  default, and Python raises TypeError. \<^verbatim>\<open>validate_occurrence_dataframe\<close> leaves out
  \<^verbatim>\<open>records_with_taxonomy_count\<close> and \<^verbatim>\<open>records_with_recorded_by_count\<close>,
  \<^verbatim>\<open>validate_event_dataframe\<close> leaves out \<^verbatim>\<open>taxonomy_report\<close>. The two frames
  below hold a fully populated, duplicate-free identifier column and nothing else.
\<close>

theorem validate_dataframe_never_returns:
  "isl (validate_occurrence_dataframe parse lower num_str vocab svc df id_fields id_term)
   \<and> isl (validate_event_dataframe parse lower num_str vocab df)
   \<and> validate_occurrence_dataframe parse lower num_str vocab svc
        \<lparr>nrows = 2, frame_data = [(''occurrenceID'', [Str ''o1'', Str ''o2''])]\<rparr>
        (Some [''occurrenceID'']) []
      = Inl (TypeError_missing
               [''records_with_taxonomy_count'', ''records_with_recorded_by_count''])
   \<and> validate_event_dataframe parse lower num_str vocab
        \<lparr>nrows = 2, frame_data = [(''eventID'', [Str ''e1'', Str ''e2''])]\<rparr>
      = Inl (TypeError_missing [''taxonomy_report''])"
  by (intro conjI validate_occurrence_dataframe_isl validate_event_dataframe_isl
        validate_occurrence_dataframe_example validate_event_dataframe_example)

section \<open>Properties of the constructors' default collections\<close>

text \<open>
  C9. After \<^verbatim>\<open>model.py\<close> is imported, two constructions of \<^verbatim>\<open>TaxonReport\<close> that
  leave \<^verbatim>\<open>unrecognised_taxa\<close> and \<^verbatim>\<open>suggested_names\<close> out hold the same list and
  the same dict: a name appended through the first report is read through the second.
  The same holds of \<^verbatim>\<open>missing_columns\<close> in two constructions of
  \<^verbatim>\<open>DFValidationReport\<close>. (Two constructions that each pass a list of their own,
  \<^verbatim>\<open>TaxonReport(unrecognised_taxa=[])\<close>, share nothing: the last conjunct.)
\<close>

theorem default_collections_are_shared:
  "(case import_model \<lparr>next_addr = 0, objects = Map.empty\<rparr> of
      (d, st) \<Rightarrow>
        (case TaxonReport_init (TaxonReport_unrecognised_taxa_default d)
                (TaxonReport_suggested_names_default d)
                \<lparr>kw_has_invalid_taxa = None, kw_unrecognised_taxa = None,
                 kw_suggested_names = None, kw_unknown = []\<rparr> of
           Inl e \<Rightarrow> False
         | Inr first \<Rightarrow>
             (case TaxonReport_init (TaxonReport_unrecognised_taxa_default d)
                     (TaxonReport_suggested_names_default d)
                     \<lparr>kw_has_invalid_taxa = Some True, kw_unrecognised_taxa = None,
                      kw_suggested_names = None, kw_unknown = []\<rparr> of
                Inl e \<Rightarrow> False
              | Inr second \<Rightarrow>
                  objects st (unrecognised_taxa second) = Some (PyList [])
                  \<and> objects (list_append (unrecognised_taxa first) ''Acacia'' st)
                      (unrecognised_taxa second) = Some (PyList [''Acacia''])
                  \<and> objects st (suggested_names second) = Some (PyDict [])
                  \<and> objects (dict_setitem (suggested_names first) ''Acacia'' ''Acacia dealbata'' st)
                      (suggested_names second) = Some (PyDict [(''Acacia'', ''Acacia dealbata'')]))))
   \<and> (case import_model \<lparr>next_addr = 0, objects = Map.empty\<rparr> of
      (d, st) \<Rightarrow>
        (case DFValidationReport_init (DFValidationReport_missing_columns_default d)
                (no_kwargs
                   \<lparr>kw_record_type := Some ''Occurrence'', kw_record_count := Some 0,
                    kw_errors := Some [], kw_warnings := Some [], kw_column_counts := Some [],
                    kw_record_error_count := Some 0, kw_coordinates_report := Some None,
                    kw_records_with_taxonomy_count := Some 0,
                    kw_taxonomy_report := Some (None :: addr TaxonReport option),
                    kw_records_with_temporal_count := Some 0,
                    kw_records_with_recorded_by_count := Some 0\<rparr>) of
           Inl e \<Rightarrow> False
         | Inr first \<Rightarrow>
             (case DFValidationReport_init (DFValidationReport_missing_columns_default d)
                     (no_kwargs
                        \<lparr>kw_record_type := Some ''Event'', kw_record_count := Some 5,
                         kw_errors := Some [], kw_warnings := Some [], kw_column_counts := Some [],
                         kw_record_error_count := Some 0, kw_coordinates_report := Some None,
                         kw_records_with_taxonomy_count := Some 0,
                         kw_taxonomy_report := Some (None :: addr TaxonReport option),
                         kw_records_with_temporal_count := Some 0,
                         kw_records_with_recorded_by_count := Some 0\<rparr>) of
                Inl e \<Rightarrow> False
              | Inr second \<Rightarrow>
                  record_type first \<noteq> record_type second
                  \<and> objects st (missing_columns second) = Some (PyList [])
                  \<and> objects (list_append (missing_columns first) ''eventDate'' st)
                      (missing_columns second) = Some (PyList [''eventDate'']))))
   \<and> (case import_model \<lparr>next_addr = 0, objects = Map.empty\<rparr> of
      (d, st) \<Rightarrow>
        (case alloc (PyList []) st of
           (a, st1) \<Rightarrow>
             (case alloc (PyList []) st1 of
                (b, st2) \<Rightarrow>
                  (case TaxonReport_init (TaxonReport_unrecognised_taxa_default d)
                          (TaxonReport_suggested_names_default d)
                          \<lparr>kw_has_invalid_taxa = None, kw_unrecognised_taxa = Some a,
                           kw_suggested_names = None, kw_unknown = []\<rparr> of
                     Inl e \<Rightarrow> False
                   | Inr first \<Rightarrow>
                       (case TaxonReport_init (TaxonReport_unrecognised_taxa_default d)
                               (TaxonReport_suggested_names_default d)
                               \<lparr>kw_has_invalid_taxa = None, kw_unrecognised_taxa = Some b,
                                kw_suggested_names = None, kw_unknown = []\<rparr> of
                          Inl e \<Rightarrow> False
                        | Inr second \<Rightarrow>
                            objects (list_append (unrecognised_taxa first) ''Acacia'' st2)
                              (unrecognised_taxa second) = Some (PyList []))))))"
  by (simp add: import_model_def alloc_def TaxonReport_init_def list_append_def dict_setitem_def
        DFValidationReport_init_def DFValidationReport_missing_def no_kwargs_def)

end
